theory Spec2Isabelle
  imports Main "HOL-Library.AList"
begin

section \<open>Data model\<close>

text \<open>
  The embedding follows the backend services of the chat server: \<open>WebSocketService\<close>
  (the socket handlers, the typing map and the rate limiter), \<open>RoomService\<close>,
  \<open>MessageService\<close> and \<open>RedisService\<close>. Identifiers are strings, as in the source;
  a point in time is the number of milliseconds \<open>Date.now()\<close> returns. Every handler
  takes the time at which it runs as an argument and runs to completion before the next
  one starts: the interleaving of two handlers at their \<open>await\<close>s is not modelled.
\<close>

type_synonym userId = string
type_synonym roomId = string
type_synonym socketId = string
type_synonym time = int

text \<open>Values that travel in event payloads.\<close>

datatype jval =
    JUndefined
  | JNull
  | JBool bool
  | JNum int
  | JStr string
  | JArr "jval list"
  | JObj "(string \<times> jval) list"

text \<open>
  A thrown JavaScript \<open>Error\<close>, with its message. Every \<open>throw new Error(m)\<close> of the
  services and every failure of a store is a value of this type.
\<close>

datatype err = Error string

fun errMessage :: "err \<Rightarrow> string" where
  "errMessage (Error m) = m"

text \<open>\<open>AuthenticatedSocket\<close>: the fields the handlers read.\<close>

record socket =
  sock_id :: socketId
  sock_userId :: userId
  sock_username :: string

text \<open>
  The object a client sends with an event (\<open>data: any\<close> in the handlers). The fields are
  the ones the handlers destructure; each is a string or absent, which is what the client
  library of the repository sends. \<open>!x\<close> on such a field holds when it is absent or empty.
\<close>

record client_data =
  d_roomId :: "string option"
  d_content :: "string option"
  d_type :: "string option"
  d_replyTo :: "string option"
  d_metadata :: "(string \<times> string) list option"
  d_messageId :: "string option"
  d_status :: "string option"
  d_currentRoom :: "string option"

definition falsy :: "string option \<Rightarrow> bool" where
  "falsy x = (case x of None \<Rightarrow> True | Some s \<Rightarrow> s = [])"

definition optStr :: "string option \<Rightarrow> jval" where
  "optStr x = (case x of None \<Rightarrow> JUndefined | Some s \<Rightarrow> JStr s)"

subsection \<open>The relational store\<close>

text \<open>
  Rows of the tables of \<open>001_initial_schema.sql\<close> that the services read and write.
  Columns that no modelled statement reads (a room's description and settings, a user's
  e-mail and password hash) are left out.

  The services pass a message id to the database as a string, and the database converts
  it to the \<open>bigint\<close> of the \<open>id\<close> column with the input function of that type. The
  function belongs to the database server and not to the repository: \<open>bigint_in\<close> stands
  for it, and nothing is assumed about it. It returns the number that the string denotes,
  or the error with which the statement fails.
\<close>

record room_row =
  r_id :: roomId
  r_name :: string
  r_type :: string
  r_owner_id :: "userId option"
  r_created_at :: time
  r_updated_at :: time

record membership_row =
  m_id :: nat
  m_user_id :: userId
  m_room_id :: roomId
  m_role :: string
  m_joined_at :: time
  m_last_read_at :: time
  m_notifications :: bool

record message_row =
  msg_id :: nat
  msg_room_id :: roomId
  msg_user_id :: userId
  msg_content :: string
  msg_type :: string
  msg_metadata :: "(string \<times> string) list"
  msg_created_at :: time
  msg_edited_at :: "time option"

record user_row =
  u_id :: userId
  u_username :: string

record database =
  users :: "user_row list"
  chat_rooms :: "room_row list"
  room_memberships :: "membership_row list"
  messages :: "message_row list"
  next_membership_id :: nat
  next_message_id :: nat
  bigint_in :: "string \<Rightarrow> err + int"

subsection \<open>The key-value store\<close>

text \<open>
  A key written with \<open>setEx key ttl value\<close> is stored with the time at which it expires;
  a read at or after that time finds nothing.
\<close>

record presence_value =
  p_status :: string
  p_currentRoom :: "string option"
  p_lastActivity :: time
  p_connectionId :: "string option"

record redis_store =
  presence :: "userId \<rightharpoonup> (presence_value \<times> time)"
  participants :: "roomId \<Rightarrow> userId set"
  sessions :: "socketId \<rightharpoonup> ((userId \<times> time) \<times> time)"
  cache :: "((roomId \<times> time option) \<times> ((message_row \<times> string) list \<times> time)) list"

subsection \<open>The state of the WebSocket service\<close>

text \<open>
  An entry of \<open>typingUsers[roomId][userId]\<close>: the user name and the handle of the timer
  that \<open>setTimeout\<close> returned.
\<close>

record typing_entry =
  t_username :: string
  t_timeout :: nat

text \<open>A pending timer: its handle, the time it is due, and the arguments of its callback
  \<open>() => this.handleStopTyping(socket, { roomId })\<close>.\<close>

record timer =
  tm_handle :: nat
  tm_due :: time
  tm_socket :: socket
  tm_roomId :: roomId

text \<open>One entry of a rate limiter's \<open>limits\<close> object.\<close>

record rate_entry =
  rl_count :: nat
  rl_resetTime :: time

type_synonym limits = "string \<rightharpoonup> rate_entry"

text \<open>
  Where an event is sent: \<open>socket.emit\<close> (to that socket), \<open>socket.to(room).emit\<close> (to the
  room's sockets but the sender) and \<open>io.to(room).emit\<close> (to all the room's sockets).
\<close>

datatype target = ToSocket socketId | ToRoomExcept roomId socketId | ToRoom roomId

text \<open>
  The keys of the key-value store (\<open>presence:user:<id>\<close>, \<open>room:participants:<id>\<close>,
  \<open>session:<id>\<close>, \<open>cache:messages:<room>:<cursor>\<close>) and the commands sent to it.
\<close>

datatype redis_key =
    PresenceKey userId
  | ParticipantsKey roomId
  | SessionKey socketId
  | CacheKey roomId "time option"

datatype redis_cmd =
    SetEx redis_key
  | Get redis_key
  | Del "redis_key list"
  | SAdd redis_key string
  | SRem redis_key string
  | Keys roomId

text \<open>
  What the server does to the world outside it, in the order it does it: an event emitted
  to clients, or a command executed by the key-value store.
\<close>

datatype effect =
    Emit target string "(string \<times> jval) list"
  | Command redis_cmd

text \<open>
  The whole state. \<open>dbFaults\<close> and \<open>redisFaults\<close> are the environment's schedule of store
  failures: every call to a store consumes the head of its schedule, and \<open>Some m\<close> makes
  that call throw an error with message \<open>m\<close> (a lost connection, a violated constraint
  that the model does not check itself); an empty schedule means no further failure.
  \<open>effects\<close> is the sequence of effects so far.
\<close>

record world =
  db :: database
  dbFaults :: "string option list"
  redis :: redis_store
  redisFaults :: "string option list"
  typingUsers :: "(roomId \<times> (userId \<times> typing_entry) list) list"
  timers :: "timer list"
  nextTimer :: nat
  rateLimiters :: "socketId \<Rightarrow> limits"
  socketRooms :: "socketId \<Rightarrow> roomId set"
  effects :: "effect list"

definition emit :: "target \<Rightarrow> string \<Rightarrow> (string \<times> jval) list \<Rightarrow> world \<Rightarrow> world" where
  "emit tgt ev pl w = w\<lparr>effects := effects w @ [Emit tgt ev pl]\<rparr>"

section \<open>Rate limiter\<close>

text \<open>
  \<open>createRateLimiter(socketId)\<close> returns a closure over a private \<open>limits\<close> object; here
  the object is an argument and a result. The handlers call it with the four literal
  action names of \<open>actionLimits\<close> only; any other name would get the limit 100.
\<close>

definition actionLimits :: "(string \<times> nat) list" where
  "actionLimits =
     [(''send_message'', 30), (''join_room'', 10), (''update_presence'', 60), (''start_typing'', 20)]"

definition limitOf :: "string \<Rightarrow> nat" where
  "limitOf action = (case map_of actionLimits action of Some n \<Rightarrow> n | None \<Rightarrow> 100)"

definition createRateLimiter :: "socketId \<Rightarrow> limits \<Rightarrow> string \<Rightarrow> time \<Rightarrow> bool \<times> limits" where
  "createRateLimiter socketId lim action now =
     (let key = socketId @ '':'' @ action in
      case lim key of
        None \<Rightarrow> (True, lim(key \<mapsto> \<lparr>rl_count = 1, rl_resetTime = now + 60000\<rparr>))
      | Some e \<Rightarrow>
          if now > rl_resetTime e
          then (True, lim(key \<mapsto> \<lparr>rl_count = 1, rl_resetTime = now + 60000\<rparr>))
          else if rl_count e \<ge> limitOf action then (False, lim)
          else (True, lim(key \<mapsto> e\<lparr>rl_count := rl_count e + 1\<rparr>)))"

definition checkRateLimit :: "socket \<Rightarrow> string \<Rightarrow> time \<Rightarrow> world \<Rightarrow> bool \<times> world" where
  "checkRateLimit socket action now w =
     (case createRateLimiter (sock_id socket) (rateLimiters w (sock_id socket)) action now of
        (ok, lim') \<Rightarrow>
          let w1 = w\<lparr>rateLimiters := (rateLimiters w)(sock_id socket := lim')\<rparr> in
          if \<not> ok
          then (False,
                emit (ToSocket (sock_id socket)) ''rate_limit_exceeded''
                  [(''error'', JStr ''rate_limit_exceeded''), (''retryAfter'', JNum 60),
                   (''endpoint'', JStr action), (''timestamp'', JNum now)] w1)
          else (True, w1))"

section \<open>Typing indicators\<close>

text \<open>
  \<open>typingUsers\<close> is a dictionary of dictionaries, kept as association lists in the order
  of insertion. \<open>setTimeout\<close> returns a fresh handle and adds a pending timer;
  \<open>clearTimeout\<close> removes the timer of a handle.
\<close>

definition setTimeout :: "time \<Rightarrow> socket \<Rightarrow> roomId \<Rightarrow> world \<Rightarrow> nat \<times> world" where
  "setTimeout due socket roomId w =
     (nextTimer w,
      w\<lparr>timers := timers w @
            [\<lparr>tm_handle = nextTimer w, tm_due = due, tm_socket = socket, tm_roomId = roomId\<rparr>],
        nextTimer := Suc (nextTimer w)\<rparr>)"

definition clearTimeout :: "nat \<Rightarrow> world \<Rightarrow> world" where
  "clearTimeout h w = w\<lparr>timers := filter (\<lambda>t. tm_handle t \<noteq> h) (timers w)\<rparr>"

definition typingEntry ::
  "(roomId \<times> (userId \<times> typing_entry) list) list \<Rightarrow> roomId \<Rightarrow> userId \<Rightarrow> typing_entry option" where
  "typingEntry tu roomId uid =
     (case map_of tu roomId of None \<Rightarrow> None | Some us \<Rightarrow> map_of us uid)"

definition handleStopTyping :: "socket \<Rightarrow> client_data \<Rightarrow> time \<Rightarrow> world \<Rightarrow> world" where
  "handleStopTyping socket data now w =
     (case d_roomId data of
        None \<Rightarrow> w
      | Some roomId \<Rightarrow>
          if roomId = [] then w
          else
            (case typingEntry (typingUsers w) roomId (sock_userId socket) of
               None \<Rightarrow> w
             | Some e \<Rightarrow>
                 let w1 = clearTimeout (t_timeout e) w;
                     w2 = w1\<lparr>typingUsers :=
                            AList.map_entry roomId (AList.delete (sock_userId socket)) (typingUsers w1)\<rparr>
                 in emit (ToRoomExcept roomId (sock_id socket)) ''user_stopped_typing''
                      [(''userId'', JStr (sock_userId socket)), (''roomId'', JStr roomId),
                       (''timestamp'', JNum now)] w2))"

definition roomOnly :: "roomId \<Rightarrow> client_data" where
  "roomOnly roomId =
     \<lparr>d_roomId = Some roomId, d_content = None, d_type = None, d_replyTo = None,
      d_metadata = None, d_messageId = None, d_status = None, d_currentRoom = None\<rparr>"

definition handleStartTyping :: "socket \<Rightarrow> client_data \<Rightarrow> time \<Rightarrow> world \<Rightarrow> world" where
  "handleStartTyping socket data now w =
     (case checkRateLimit socket ''start_typing'' now w of
        (False, w1) \<Rightarrow> w1
      | (True, w1) \<Rightarrow>
          (case d_roomId data of
             None \<Rightarrow> w1
           | Some roomId \<Rightarrow>
               if roomId = [] then w1
               else
                 let tu1 = (case map_of (typingUsers w1) roomId of
                              None \<Rightarrow> AList.update roomId [] (typingUsers w1)
                            | Some us \<Rightarrow> typingUsers w1);
                     w2 = (case typingEntry tu1 roomId (sock_userId socket) of
                             None \<Rightarrow> w1
                           | Some e \<Rightarrow> clearTimeout (t_timeout e) w1);
                     (h, w3) = setTimeout (now + 3000) socket roomId w2;
                     w4 = w3\<lparr>typingUsers :=
                            AList.map_entry roomId
                              (AList.update (sock_userId socket)
                                 \<lparr>t_username = sock_username socket, t_timeout = h\<rparr>) tu1\<rparr>
                 in emit (ToRoomExcept roomId (sock_id socket)) ''user_typing''
                      [(''userId'', JStr (sock_userId socket)),
                       (''username'', JStr (sock_username socket)),
                       (''roomId'', JStr roomId), (''timestamp'', JNum now)] w4))"

text \<open>
  The passing of time: every pending timer that is due at \<open>now\<close> runs its callback, in the
  order the timers were set, unless an earlier callback has cleared it.
\<close>

definition fireTimer :: "time \<Rightarrow> timer \<Rightarrow> world \<Rightarrow> world" where
  "fireTimer now t w =
     (if tm_handle t \<in> tm_handle ` set (timers w)
      then handleStopTyping (tm_socket t) (roomOnly (tm_roomId t)) now
             (w\<lparr>timers := filter (\<lambda>u. tm_handle u \<noteq> tm_handle t) (timers w)\<rparr>)
      else w)"

definition runTimers :: "time \<Rightarrow> world \<Rightarrow> world" where
  "runTimers now w = fold (fireTimer now) (filter (\<lambda>t. tm_due t \<le> now) (timers w)) w"

definition cleanupTypingForUser :: "userId \<Rightarrow> world \<Rightarrow> world" where
  "cleanupTypingForUser uid w =
     fold (\<lambda>roomId w'.
             case typingEntry (typingUsers w') roomId uid of
               None \<Rightarrow> w'
             | Some e \<Rightarrow>
                 (clearTimeout (t_timeout e) w')
                   \<lparr>typingUsers := AList.map_entry roomId (AList.delete uid) (typingUsers w')\<rparr>)
          (map fst (typingUsers w)) w"

section \<open>Calls that may throw\<close>

text \<open>
  An \<open>async\<close> function of the services is a state transformer that returns either the
  thrown error or its result. \<open>io_bind\<close> is \<open>await\<close> followed by the rest of the body,
  \<open>io_catch\<close> is \<open>try { ... } catch (error) { ... }\<close>.
\<close>

type_synonym 'a io = "world \<Rightarrow> (err + 'a) \<times> world"

definition io_ret :: "'a \<Rightarrow> 'a io" where
  "io_ret x w = (Inr x, w)"

definition io_throw :: "string \<Rightarrow> 'a io" where
  "io_throw m w = (Inl (Error m), w)"

definition io_bind :: "'a io \<Rightarrow> ('a \<Rightarrow> 'b io) \<Rightarrow> 'b io" where
  "io_bind m f w = (case m w of (Inl e, w1) \<Rightarrow> (Inl e, w1) | (Inr x, w1) \<Rightarrow> f x w1)"

definition io_catch :: "'a io \<Rightarrow> (err \<Rightarrow> 'a io) \<Rightarrow> 'a io" where
  "io_catch m h w = (case m w of (Inl e, w1) \<Rightarrow> h e w1 | (Inr x, w1) \<Rightarrow> (Inr x, w1))"

definition io_do :: "(world \<Rightarrow> world) \<Rightarrow> unit io" where
  "io_do f w = (Inr (), f w)"

text \<open>A loop \<open>for (const x of xs) { await f(x) }\<close>: it stops at the first error.\<close>

fun io_each :: "('a \<Rightarrow> unit io) \<Rightarrow> 'a list \<Rightarrow> unit io" where
  "io_each f [] = io_ret ()"
| "io_each f (x # xs) = io_bind (f x) (\<lambda>_. io_each f xs)"

text \<open>The same loop collecting the results.\<close>

fun io_map :: "('a \<Rightarrow> 'b io) \<Rightarrow> 'a list \<Rightarrow> 'b list io" where
  "io_map f [] = io_ret []"
| "io_map f (x # xs) = io_bind (f x) (\<lambda>y. io_bind (io_map f xs) (\<lambda>ys. io_ret (y # ys)))"

text \<open>
  \<open>Promise.all(xs.map(async x => ...))\<close>: every call is started, so every call reaches
  its store; the result is the list of results, or the first error.
\<close>

fun io_all :: "('a \<Rightarrow> 'b io) \<Rightarrow> 'a list \<Rightarrow> 'b list io" where
  "io_all f [] = io_ret []"
| "io_all f (x # xs) =
     (\<lambda>w. case f x w of
            (Inl e, w1) \<Rightarrow> (Inl e, snd (io_all f xs w1))
          | (Inr y, w1) \<Rightarrow>
              (case io_all f xs w1 of
                 (Inl e, w2) \<Rightarrow> (Inl e, w2)
               | (Inr ys, w2) \<Rightarrow> (Inr (y # ys), w2)))"

subsection \<open>\<open>Database.query\<close> and \<open>Database.transaction\<close>\<close>

text \<open>
  A statement is a function on the tables that returns its rows or the error of a
  violated constraint, and the tables after it. \<open>query\<close> runs one statement: it throws
  what the failure schedule says, or else what the statement returns.
\<close>

type_synonym 'a statement = "database \<Rightarrow> (err + 'a) \<times> database"

definition select :: "(database \<Rightarrow> 'a) \<Rightarrow> 'a statement" where
  "select f d = (Inr (f d), d)"

definition query :: "'a statement \<Rightarrow> 'a io" where
  "query stmt w =
     (case dbFaults w of
        Some m # fs \<Rightarrow> (Inl (Error m), w\<lparr>dbFaults := fs\<rparr>)
      | _ \<Rightarrow>
          (case stmt (db w) of
             (r, d1) \<Rightarrow> (r, w\<lparr>db := d1, dbFaults := tl (dbFaults w)\<rparr>)))"

text \<open>
  \<open>transaction(callback)\<close>: \<open>getClient\<close>, \<open>BEGIN\<close>, the callback, \<open>COMMIT\<close>; on an
  error \<open>ROLLBACK\<close> and the error is thrown again. A transaction that does not commit
  leaves the tables as they were when it began, except for the sequences.
\<close>

definition noop :: "unit statement" where
  "noop = select (\<lambda>_. ())"

definition restoreTables :: "database \<Rightarrow> database \<Rightarrow> database" where
  "restoreTables d0 d1 =
     d0\<lparr>next_membership_id := next_membership_id d1, next_message_id := next_message_id d1\<rparr>"

definition transaction :: "'a io \<Rightarrow> 'a io" where
  "transaction callback =
     io_bind (query noop) (\<lambda>_ w0.
       case io_bind (query noop) (\<lambda>_.
              io_bind callback (\<lambda>r.
              io_bind (query noop) (\<lambda>_. io_ret r))) w0 of
         (Inr r, w1) \<Rightarrow> (Inr r, w1)
       | (Inl e, w1) \<Rightarrow>
           (case query noop (w1\<lparr>db := restoreTables (db w0) (db w1)\<rparr>) of
              (Inl e', w2) \<Rightarrow> (Inl e', w2)
            | (Inr _, w2) \<Rightarrow> (Inl e, w2)))"

subsection \<open>\<open>RedisService\<close>\<close>

text \<open>
  One command sent to the key-value store: it throws what the schedule says, or else is
  executed and recorded.
\<close>

definition command :: "redis_cmd \<Rightarrow> (redis_store \<Rightarrow> 'a \<times> redis_store) \<Rightarrow> 'a io" where
  "command cmd c w =
     (case redisFaults w of
        Some m # fs \<Rightarrow> (Inl (Error m), w\<lparr>redisFaults := fs\<rparr>)
      | _ \<Rightarrow>
          (case c (redis w) of
             (r, s1) \<Rightarrow>
               (Inr r, w\<lparr>redis := s1, redisFaults := tl (redisFaults w),
                         effects := effects w @ [Command cmd]\<rparr>)))"

text \<open>\<open>UserPresence\<close>: the user and the stored value.\<close>

type_synonym user_presence = "userId \<times> presence_value"

definition setUserPresence :: "user_presence \<Rightarrow> time \<Rightarrow> unit io" where
  "setUserPresence p now =
     command (SetEx (PresenceKey (fst p)))
       (\<lambda>s. ((), s\<lparr>presence := (presence s)(fst p \<mapsto> (snd p, now + 30000))\<rparr>))"

definition getUserPresence :: "userId \<Rightarrow> time \<Rightarrow> user_presence option io" where
  "getUserPresence uid now =
     command (Get (PresenceKey uid))
       (\<lambda>s. (case presence s uid of
               None \<Rightarrow> None
             | Some (v, expires) \<Rightarrow> if now < expires then Some (uid, v) else None, s))"

definition removeUserPresence :: "userId \<Rightarrow> unit io" where
  "removeUserPresence uid =
     command (Del [PresenceKey uid]) (\<lambda>s. ((), s\<lparr>presence := (presence s)(uid := None)\<rparr>))"

definition updateUserActivity :: "userId \<Rightarrow> time \<Rightarrow> unit io" where
  "updateUserActivity uid now =
     io_bind (getUserPresence uid now) (\<lambda>p.
       case p of
         None \<Rightarrow> io_ret ()
       | Some (u, v) \<Rightarrow> setUserPresence (u, v\<lparr>p_lastActivity := now, p_status := ''online''\<rparr>) now)"

definition addUserToRoom :: "userId \<Rightarrow> roomId \<Rightarrow> unit io" where
  "addUserToRoom uid rid =
     command (SAdd (ParticipantsKey rid) uid)
       (\<lambda>s. ((), s\<lparr>participants := (participants s)(rid := insert uid (participants s rid))\<rparr>))"

definition removeUserFromRoom :: "userId \<Rightarrow> roomId \<Rightarrow> unit io" where
  "removeUserFromRoom uid rid =
     command (SRem (ParticipantsKey rid) uid)
       (\<lambda>s. ((), s\<lparr>participants := (participants s)(rid := participants s rid - {uid})\<rparr>))"

definition removeSession :: "socketId \<Rightarrow> unit io" where
  "removeSession cid =
     command (Del [SessionKey cid]) (\<lambda>s. ((), s\<lparr>sessions := (sessions s)(cid := None)\<rparr>))"

text \<open>
  The message cache: keys \<open>cache:messages:<room>:<cursor or 'latest'>\<close>, kept five
  minutes. A cursor, an ISO date string in the source, is the time it denotes; no cursor
  is the key \<open>latest\<close>. A cached value is the list of messages with their authors' names.
\<close>

definition liveCache ::
  "time \<Rightarrow> redis_store \<Rightarrow> ((roomId \<times> time option) \<times> ((message_row \<times> string) list \<times> time)) list" where
  "liveCache now s = filter (\<lambda>(k, v, expires). now < expires) (cache s)"

definition cacheMessageHistory ::
  "roomId \<Rightarrow> (message_row \<times> string) list \<Rightarrow> time option \<Rightarrow> time \<Rightarrow> unit io" where
  "cacheMessageHistory rid msgs cursor now =
     command (SetEx (CacheKey rid cursor))
       (\<lambda>s. ((), s\<lparr>cache := AList.update (rid, cursor) (msgs, now + 300000) (cache s)\<rparr>))"

definition getCachedMessageHistory ::
  "roomId \<Rightarrow> time option \<Rightarrow> time \<Rightarrow> (message_row \<times> string) list option io" where
  "getCachedMessageHistory rid cursor now =
     command (Get (CacheKey rid cursor))
       (\<lambda>s. (map_option fst (map_of (liveCache now s) (rid, cursor)), s))"

section \<open>\<open>RoomService\<close>\<close>

text \<open>
  The statements check the constraints of the schema on the rows they write. A serial
  column takes the next value of its sequence, which advances even when the row is
  refused. Rows that an \<open>ORDER BY\<close> does not separate come in an order that the
  database is free to choose; the model fixes one.
\<close>

definition membershipsOf :: "userId \<Rightarrow> roomId \<Rightarrow> database \<Rightarrow> membership_row list" where
  "membershipsOf uid rid d =
     filter (\<lambda>m. m_user_id m = uid \<and> m_room_id m = rid) (room_memberships d)"

definition roomsWithId :: "roomId \<Rightarrow> database \<Rightarrow> room_row list" where
  "roomsWithId rid d = filter (\<lambda>r. r_id r = rid) (chat_rooms d)"

definition insertMembership :: "userId \<Rightarrow> roomId \<Rightarrow> string \<Rightarrow> time \<Rightarrow> membership_row statement" where
  "insertMembership uid rid role now d =
     (let row = \<lparr>m_id = next_membership_id d, m_user_id = uid, m_room_id = rid, m_role = role,
                 m_joined_at = now, m_last_read_at = now, m_notifications = True\<rparr>;
          d1 = d\<lparr>next_membership_id := Suc (next_membership_id d)\<rparr>
      in if role \<notin> {''owner'', ''admin'', ''member''}
         then (Inl (Error ''violates check constraint room_memberships_role_check''), d1)
         else if uid \<notin> u_id ` set (users d)
         then (Inl (Error ''violates foreign key constraint room_memberships_user_id_fkey''), d1)
         else if rid \<notin> r_id ` set (chat_rooms d)
         then (Inl (Error ''violates foreign key constraint room_memberships_room_id_fkey''), d1)
         else if membershipsOf uid rid d \<noteq> []
         then (Inl (Error ''violates unique constraint room_memberships_user_id_room_id_key''), d1)
         else (Inr row, d1\<lparr>room_memberships := room_memberships d @ [row]\<rparr>))"

definition touchRoom :: "roomId \<Rightarrow> time \<Rightarrow> unit statement" where
  "touchRoom rid now d =
     (Inr (),
      d\<lparr>chat_rooms := map (\<lambda>r. if r_id r = rid then r\<lparr>r_updated_at := now\<rparr> else r) (chat_rooms d)\<rparr>)"

definition joinRoom :: "userId \<Rightarrow> roomId \<Rightarrow> string \<Rightarrow> time \<Rightarrow> membership_row io" where
  "joinRoom uid rid role now =
     io_bind (query (select (membershipsOf uid rid))) (\<lambda>existing.
       case existing of
         membership # _ \<Rightarrow> io_ret membership
       | [] \<Rightarrow>
           io_bind (query (select (roomsWithId rid))) (\<lambda>room.
             case room of
               [] \<Rightarrow> io_throw ''Room not found''
             | r # _ \<Rightarrow>
                 if r_type r = ''private''
                 then io_throw ''Cannot join private room without invitation''
                 else
                   io_bind (query (insertMembership uid rid role now)) (\<lambda>membership.
                   io_bind (addUserToRoom uid rid) (\<lambda>_.
                   io_bind (query (touchRoom rid now)) (\<lambda>_.
                   io_ret membership)))))"

text \<open>
  \<open>leaveRoom\<close>. The new owner is the first row of
  \<open>ORDER BY role DESC, joined_at ASC\<close> among the other admins and members: as strings,
  \<open>member\<close> sorts before \<open>admin\<close> in descending order. Rows that the order does not
  separate keep their table order.
\<close>

definition newOwnerRows :: "userId \<Rightarrow> roomId \<Rightarrow> database \<Rightarrow> membership_row list" where
  "newOwnerRows uid rid d =
     (let others = filter (\<lambda>m. m_room_id m = rid \<and> m_user_id m \<noteq> uid) (room_memberships d)
      in take 1 (sort_key m_joined_at (filter (\<lambda>m. m_role m = ''member'') others) @
                 sort_key m_joined_at (filter (\<lambda>m. m_role m = ''admin'') others)))"

definition setRole :: "string \<Rightarrow> userId \<Rightarrow> roomId \<Rightarrow> unit statement" where
  "setRole role uid rid d =
     (Inr (),
      d\<lparr>room_memberships :=
          map (\<lambda>m. if m_user_id m = uid \<and> m_room_id m = rid then m\<lparr>m_role := role\<rparr> else m)
            (room_memberships d)\<rparr>)"

definition setOwner :: "userId \<Rightarrow> roomId \<Rightarrow> time \<Rightarrow> unit statement" where
  "setOwner uid rid now d =
     (if uid \<notin> u_id ` set (users d)
      then (Inl (Error ''violates foreign key constraint chat_rooms_owner_id_fkey''), d)
      else (Inr (),
            d\<lparr>chat_rooms :=
                map (\<lambda>r. if r_id r = rid then r\<lparr>r_owner_id := Some uid, r_updated_at := now\<rparr> else r)
                  (chat_rooms d)\<rparr>))"

definition deleteMembership :: "userId \<Rightarrow> roomId \<Rightarrow> unit statement" where
  "deleteMembership uid rid d =
     (Inr (),
      d\<lparr>room_memberships :=
          filter (\<lambda>m. \<not> (m_user_id m = uid \<and> m_room_id m = rid)) (room_memberships d)\<rparr>)"

definition leaveRoom :: "userId \<Rightarrow> roomId \<Rightarrow> time \<Rightarrow> unit io" where
  "leaveRoom uid rid now =
     transaction
       (io_bind (query (select (membershipsOf uid rid))) (\<lambda>membership.
          case membership of
            [] \<Rightarrow> io_throw ''User is not a member of this room''
          | m # _ \<Rightarrow>
              io_bind
                (if m_role m = ''owner''
                 then io_bind (query (select (newOwnerRows uid rid))) (\<lambda>newOwner.
                        case newOwner of
                          [] \<Rightarrow> io_ret ()
                        | n # _ \<Rightarrow>
                            io_bind (query (setRole ''owner'' (m_user_id n) rid)) (\<lambda>_.
                            query (setOwner (m_user_id n) rid now)))
                 else io_ret ())
                (\<lambda>_. io_bind (query (deleteMembership uid rid)) (\<lambda>_.
                      removeUserFromRoom uid rid))))"

text \<open>\<open>RoomWithMembership\<close>, as \<open>getUserRooms\<close> and \<open>getRoomById\<close> build it.\<close>

record room_with_membership =
  rw_room :: room_row
  rw_memberCount :: nat
  rw_membership :: "membership_row option"
  rw_lastMessage :: "(message_row \<times> string) option"

definition memberCount :: "roomId \<Rightarrow> database \<Rightarrow> nat" where
  "memberCount rid d = length (filter (\<lambda>m. m_room_id m = rid) (room_memberships d))"

text \<open>Messages of a room with their authors' names, newest first.\<close>

definition roomMessages :: "roomId \<Rightarrow> database \<Rightarrow> (message_row \<times> string) list" where
  "roomMessages rid d =
     rev (sort_key (\<lambda>(m, n). msg_created_at m)
            (concat (map (\<lambda>m. map (\<lambda>u. (m, u_username u))
                                 (filter (\<lambda>u. u_id u = msg_user_id m) (users d)))
                         (filter (\<lambda>m. msg_room_id m = rid) (messages d)))))"

definition lastMessage :: "roomId \<Rightarrow> database \<Rightarrow> (message_row \<times> string) option" where
  "lastMessage rid d = (case roomMessages rid d of [] \<Rightarrow> None | x # _ \<Rightarrow> Some x)"

definition userRoomRows :: "userId \<Rightarrow> database \<Rightarrow> (room_row \<times> membership_row) list" where
  "userRoomRows uid d =
     rev (sort_key (\<lambda>(r, m). r_updated_at r)
            (concat (map (\<lambda>r. map (\<lambda>m. (r, m)) (membershipsOf uid (r_id r) d)) (chat_rooms d))))"

definition getUserRooms :: "userId \<Rightarrow> room_with_membership list io" where
  "getUserRooms uid =
     io_bind (query (select (\<lambda>d. map (\<lambda>(r, m). (r, m, memberCount (r_id r) d)) (userRoomRows uid d))))
       (io_all (\<lambda>(r, m, c).
          io_bind (query (select (lastMessage (r_id r)))) (\<lambda>lm.
            io_ret \<lparr>rw_room = r, rw_memberCount = c, rw_membership = Some m, rw_lastMessage = lm\<rparr>)))"

definition getRoomById :: "roomId \<Rightarrow> userId option \<Rightarrow> room_with_membership option io" where
  "getRoomById rid uid =
     io_bind (query (select (\<lambda>d. map (\<lambda>r. (r, memberCount rid d,
                                             case uid of
                                               None \<Rightarrow> None
                                             | Some u \<Rightarrow>
                                                 if u = [] then None
                                                 else (case membershipsOf u rid d of
                                                         [] \<Rightarrow> None
                                                       | m # _ \<Rightarrow> Some m)))
                                    (roomsWithId rid d))))
       (\<lambda>rows. case rows of
          [] \<Rightarrow> io_ret None
        | (r, c, ms) # _ \<Rightarrow>
            io_bind (query (select (lastMessage rid))) (\<lambda>lm.
              io_ret (Some \<lparr>rw_room = r, rw_memberCount = c, rw_membership = ms, rw_lastMessage = lm\<rparr>)))"

text \<open>
  \<open>getRoomParticipants\<close>: members in \<open>ORDER BY role DESC, joined_at ASC\<close>, which puts
  owners first, then members, then admins; the presence of each is read in turn.
\<close>

record room_participant =
  rp_userId :: userId
  rp_username :: string
  rp_role :: string
  rp_joinedAt :: time
  rp_isOnline :: bool

definition roleRank :: "string \<Rightarrow> nat" where
  "roleRank role = (if role = ''owner'' then 0 else if role = ''member'' then 1 else 2)"

definition participantRows :: "roomId \<Rightarrow> database \<Rightarrow> (user_row \<times> membership_row) list" where
  "participantRows rid d =
     sort_key (\<lambda>(u, m). roleRank (m_role m))
       (sort_key (\<lambda>(u, m). m_joined_at m)
          (concat (map (\<lambda>m. map (\<lambda>u. (u, m)) (filter (\<lambda>u. u_id u = m_user_id m) (users d)))
                       (filter (\<lambda>m. m_room_id m = rid) (room_memberships d)))))"

definition getRoomParticipants :: "roomId \<Rightarrow> time \<Rightarrow> room_participant list io" where
  "getRoomParticipants rid now =
     io_bind (query (select (participantRows rid)))
       (io_map (\<lambda>(u, m).
          io_bind (getUserPresence (u_id u) now) (\<lambda>p.
            io_ret \<lparr>rp_userId = u_id u, rp_username = u_username u, rp_role = m_role m,
                    rp_joinedAt = m_joined_at m,
                    rp_isOnline = (case p of None \<Rightarrow> False | Some (_, v) \<Rightarrow> p_status v = ''online'')\<rparr>)))"

section \<open>\<open>MessageService\<close>\<close>

definition validateUserInRoom :: "userId \<Rightarrow> roomId \<Rightarrow> unit io" where
  "validateUserInRoom uid rid =
     io_bind (query (select (membershipsOf uid rid))) (\<lambda>membership.
       if membership = [] then io_throw ''User is not a member of this room'' else io_ret ())"

definition clearMessageCache :: "roomId \<Rightarrow> time \<Rightarrow> unit io" where
  "clearMessageCache rid now =
     io_bind (command (Keys rid)
                (\<lambda>s. (map fst (filter (\<lambda>(k, v). fst k = rid) (liveCache now s)), s))) (\<lambda>keys.
       if keys = [] then io_ret ()
       else command (Del (map (\<lambda>(r, c). CacheKey r c) keys))
              (\<lambda>s. ((), s\<lparr>cache := filter (\<lambda>(k, v). k \<notin> set keys) (cache s)\<rparr>)))"

text \<open>The \<open>content_length\<close> and type checks of the \<open>messages\<close> table; a character of the
  content is one \<open>char\<close>.\<close>

definition contentOk :: "string \<Rightarrow> string \<Rightarrow> bool" where
  "contentOk type content =
     (if type = ''text'' then 1 \<le> length content \<and> length content \<le> 2000
      else 1 \<le> length content)"

definition insertMessage ::
  "roomId \<Rightarrow> userId \<Rightarrow> string \<Rightarrow> string \<Rightarrow> (string \<times> string) list \<Rightarrow> time \<Rightarrow> message_row statement" where
  "insertMessage rid uid content type metadata now d =
     (let row = \<lparr>msg_id = next_message_id d, msg_room_id = rid, msg_user_id = uid,
                 msg_content = content, msg_type = type, msg_metadata = metadata,
                 msg_created_at = now, msg_edited_at = None\<rparr>;
          d1 = d\<lparr>next_message_id := Suc (next_message_id d)\<rparr>
      in if type \<notin> {''text'', ''system'', ''join'', ''leave''}
         then (Inl (Error ''violates check constraint messages_type_check''), d1)
         else if \<not> contentOk type content
         then (Inl (Error ''violates check constraint content_length''), d1)
         else if rid \<notin> r_id ` set (chat_rooms d)
         then (Inl (Error ''violates foreign key constraint messages_room_id_fkey''), d1)
         else if uid \<notin> u_id ` set (users d)
         then (Inl (Error ''violates foreign key constraint messages_user_id_fkey''), d1)
         else (Inr row, d1\<lparr>messages := messages d @ [row]\<rparr>))"

definition createMessage ::
  "roomId \<Rightarrow> userId \<Rightarrow> string \<Rightarrow> string \<Rightarrow> (string \<times> string) list \<Rightarrow> time \<Rightarrow> message_row io" where
  "createMessage rid uid content type metadata now =
     io_bind (validateUserInRoom uid rid) (\<lambda>_.
     io_bind (query (insertMessage rid uid content type metadata now)) (\<lambda>message.
     io_bind (query (touchRoom rid now)) (\<lambda>_.
     io_bind (clearMessageCache rid now) (\<lambda>_.
     io_ret message))))"

text \<open>
  A statement with \<open>WHERE id = $1\<close> and the parameter \<open>messageId\<close>: the database reads
  the string as a \<open>bigint\<close>, and the statement fails when that fails. An id that a
  sequence has given is a natural number, so a negative parameter matches no row.
\<close>

definition byId :: "string \<Rightarrow> (int \<Rightarrow> 'a statement) \<Rightarrow> 'a statement" where
  "byId messageId stmt d =
     (case bigint_in d messageId of
        Inl e \<Rightarrow> (Inl e, d)
      | Inr n \<Rightarrow> stmt n d)"

definition messagesWithId :: "int \<Rightarrow> database \<Rightarrow> message_row list" where
  "messagesWithId n d = filter (\<lambda>m. int (msg_id m) = n) (messages d)"

text \<open>\<open>UpdateMessageData\<close>: the fields \<open>updateMessage\<close> reads.\<close>

record update_message_data =
  ud_content :: "string option"
  ud_metadata :: "(string \<times> string) list option"

definition updateMessageRows :: "update_message_data \<Rightarrow> time \<Rightarrow> int \<Rightarrow> message_row list statement" where
  "updateMessageRows upd now n d =
     (let change = (\<lambda>m. m\<lparr>msg_content := (case ud_content upd of None \<Rightarrow> msg_content m | Some c \<Rightarrow> c),
                          msg_metadata := (case ud_metadata upd of None \<Rightarrow> msg_metadata m | Some x \<Rightarrow> x),
                          msg_edited_at := Some now\<rparr>);
          rows = map change (messagesWithId n d)
      in if \<not> list_all (\<lambda>m. contentOk (msg_type m) (msg_content m)) rows
         then (Inl (Error ''violates check constraint content_length''), d)
         else (Inr rows,
               d\<lparr>messages := map (\<lambda>m. if int (msg_id m) = n then change m else m) (messages d)\<rparr>))"

definition updateMessage :: "string \<Rightarrow> userId \<Rightarrow> update_message_data \<Rightarrow> time \<Rightarrow> message_row io" where
  "updateMessage messageId uid upd now =
     io_bind (query (byId messageId (\<lambda>n. select (messagesWithId n)))) (\<lambda>ownership.
       case ownership of
         [] \<Rightarrow> io_throw ''Message not found''
       | message # _ \<Rightarrow>
           if msg_user_id message \<noteq> uid then io_throw ''Not authorized to edit this message''
           else if now - msg_created_at message > 24 * 60 * 60 * 1000
           then io_throw ''Message too old to edit''
           else
             io_bind (query (byId messageId (updateMessageRows upd now))) (\<lambda>rows.
             io_bind (clearMessageCache (msg_room_id message) now) (\<lambda>_.
               case rows of
                 [] \<Rightarrow> io_throw ''Cannot read properties of undefined (reading 'id')''
               | row # _ \<Rightarrow> io_ret row)))"

definition softDelete :: "time \<Rightarrow> int \<Rightarrow> unit statement" where
  "softDelete now n d =
     (Inr (),
      d\<lparr>messages :=
          map (\<lambda>m. if int (msg_id m) = n
                    then m\<lparr>msg_content := ''[Message deleted]'', msg_type := ''system'',
                           msg_edited_at := Some now\<rparr>
                    else m) (messages d)\<rparr>)"

definition deleteMessage :: "string \<Rightarrow> userId \<Rightarrow> bool \<Rightarrow> time \<Rightarrow> unit io" where
  "deleteMessage messageId uid isAdmin now =
     io_bind (query (byId messageId (\<lambda>n. select (messagesWithId n)))) (\<lambda>result.
       case result of
         [] \<Rightarrow> io_throw ''Message not found''
       | message # _ \<Rightarrow>
           if msg_user_id message \<noteq> uid \<and> \<not> isAdmin
           then io_throw ''Not authorized to delete this message''
           else
             io_bind (query (byId messageId (softDelete now))) (\<lambda>_.
             clearMessageCache (msg_room_id message) now))"

definition messagesWithUser :: "int \<Rightarrow> database \<Rightarrow> (message_row \<times> string) list" where
  "messagesWithUser n d =
     concat (map (\<lambda>m. map (\<lambda>u. (m, u_username u)) (filter (\<lambda>u. u_id u = msg_user_id m) (users d)))
                 (messagesWithId n d))"

definition getMessageById :: "string \<Rightarrow> (message_row \<times> string) option io" where
  "getMessageById messageId =
     io_bind (query (byId messageId (\<lambda>n. select (messagesWithUser n)))) (\<lambda>rows.
       case rows of [] \<Rightarrow> io_ret None | row # _ \<Rightarrow> io_ret (Some row))"

text \<open>
  \<open>getMessageHistory\<close>. On a cache hit the source returns the cached array itself, where
  its callers expect an object with a \<open>messages\<close> field; the two results are kept apart.
\<close>

datatype message_history =
    Cached "(message_row \<times> string) list"
  | History "(message_row \<times> string) list" bool "time option"

definition historyRows :: "roomId \<Rightarrow> time option \<Rightarrow> nat \<Rightarrow> database \<Rightarrow> (message_row \<times> string) list" where
  "historyRows rid cursor n d =
     take n (filter (\<lambda>(m, u). case cursor of None \<Rightarrow> True | Some c \<Rightarrow> msg_created_at m < c)
               (roomMessages rid d))"

definition getMessageHistory :: "roomId \<Rightarrow> userId \<Rightarrow> nat \<Rightarrow> time option \<Rightarrow> time \<Rightarrow> message_history io" where
  "getMessageHistory rid uid limit cursor now =
     io_bind (validateUserInRoom uid rid) (\<lambda>_.
     io_bind (getCachedMessageHistory rid cursor now) (\<lambda>cached.
       case cached of
         Some c \<Rightarrow> io_ret (Cached c)
       | None \<Rightarrow>
           io_bind (query (select (historyRows rid cursor (limit + 1)))) (\<lambda>rows.
             let hasMore = length rows > limit;
                 msgs = rev (take limit rows);
                 nextCursor = (if hasMore then Some (msg_created_at (fst (rows ! limit))) else None)
             in io_bind (cacheMessageHistory rid msgs cursor now) (\<lambda>_.
                io_ret (History msgs hasMore nextCursor)))))"

section \<open>The handlers of \<open>WebSocketService\<close>\<close>

text \<open>
  Each handler is the body of its \<open>try\<close> block under \<open>io_catch\<close> with its \<open>catch\<close> block,
  and returns the state it leaves. Time stamps in payloads are the time of the call.
\<close>

definition strOf :: "string option \<Rightarrow> string" where
  "strOf x = (case x of None \<Rightarrow> [] | Some s \<Rightarrow> s)"

definition isSpace :: "char \<Rightarrow> bool" where
  "isSpace c = (c \<in> set [CHR '' '', CHR 0x09, CHR 0x0A, CHR 0x0B, CHR 0x0C, CHR 0x0D])"

definition trim :: "string \<Rightarrow> string" where
  "trim s = rev (dropWhile isSpace (rev (dropWhile isSpace s)))"

definition userJson :: "socket \<Rightarrow> jval" where
  "userJson socket = JObj [(''id'', JStr (sock_userId socket)), (''username'', JStr (sock_username socket))]"

definition metadataJson :: "(string \<times> string) list \<Rightarrow> jval" where
  "metadataJson md = JObj (map (\<lambda>(k, v). (k, JStr v)) md)"

definition messageJson :: "message_row \<times> string \<Rightarrow> jval" where
  "messageJson x =
     (case x of (m, username) \<Rightarrow>
        JObj [(''id'', JNum (int (msg_id m))), (''roomId'', JStr (msg_room_id m)),
              (''userId'', JStr (msg_user_id m)), (''content'', JStr (msg_content m)),
              (''type'', JStr (msg_type m)), (''metadata'', metadataJson (msg_metadata m)),
              (''createdAt'', JNum (msg_created_at m)),
              (''editedAt'', case msg_edited_at m of None \<Rightarrow> JNull | Some t \<Rightarrow> JNum t),
              (''user'', JObj [(''id'', JStr (msg_user_id m)), (''username'', JStr username)])])"

definition participantJson :: "room_participant \<Rightarrow> jval" where
  "participantJson p =
     JObj [(''userId'', JStr (rp_userId p)), (''username'', JStr (rp_username p)),
           (''role'', JStr (rp_role p)), (''joinedAt'', JNum (rp_joinedAt p)),
           (''isOnline'', JBool (rp_isOnline p))]"

definition socketJoin :: "socket \<Rightarrow> roomId \<Rightarrow> world \<Rightarrow> world" where
  "socketJoin socket rid w =
     w\<lparr>socketRooms := (socketRooms w)(sock_id socket := insert rid (socketRooms w (sock_id socket)))\<rparr>"

definition socketLeave :: "socket \<Rightarrow> roomId \<Rightarrow> world \<Rightarrow> world" where
  "socketLeave socket rid w =
     w\<lparr>socketRooms := (socketRooms w)(sock_id socket := socketRooms w (sock_id socket) - {rid})\<rparr>"

definition handleDisconnection :: "socket \<Rightarrow> time \<Rightarrow> world \<Rightarrow> world" where
  "handleDisconnection socket now w =
     snd (io_catch
            (io_bind (removeUserPresence (sock_userId socket)) (\<lambda>_.
             io_bind (getUserRooms (sock_userId socket)) (\<lambda>userRooms.
             io_bind (io_each (\<lambda>room.
                        io_bind (removeUserFromRoom (sock_userId socket) (r_id (rw_room room))) (\<lambda>_.
                        io_do (emit (ToRoomExcept (r_id (rw_room room)) (sock_id socket)) ''user_left''
                                 [(''user'', userJson socket), (''roomId'', JStr (r_id (rw_room room))),
                                  (''timestamp'', JNum now)])))
                        userRooms) (\<lambda>_.
             io_bind (io_do (cleanupTypingForUser (sock_userId socket))) (\<lambda>_.
             removeSession (sock_id socket))))))
            (\<lambda>error. io_ret ())
            w)"

definition handleJoinRoom :: "socket \<Rightarrow> client_data \<Rightarrow> time \<Rightarrow> world \<Rightarrow> world" where
  "handleJoinRoom socket data now w =
     (case checkRateLimit socket ''join_room'' now w of
        (False, w1) \<Rightarrow> w1
      | (True, w1) \<Rightarrow>
          if falsy (d_roomId data)
          then emit (ToSocket (sock_id socket)) ''join_room_error''
                 [(''error'', JStr ''missing_room_id''), (''message'', JStr ''Room ID is required'')] w1
          else
            snd (io_catch
                   (io_bind (joinRoom (sock_userId socket) (strOf (d_roomId data)) ''member'' now) (\<lambda>membership.
                    io_bind (io_do (socketJoin socket (strOf (d_roomId data)))) (\<lambda>_.
                    io_bind (getRoomById (strOf (d_roomId data)) (Some (sock_userId socket))) (\<lambda>room.
                    io_bind (getMessageHistory (strOf (d_roomId data)) (sock_userId socket) 50 None now) (\<lambda>messageHistory.
                    io_bind (getRoomParticipants (strOf (d_roomId data)) now) (\<lambda>participants.
                      case room of
                        None \<Rightarrow> io_throw ''Cannot read properties of null (reading 'id')''
                      | Some r \<Rightarrow>
                          io_bind (io_do (emit (ToSocket (sock_id socket)) ''room_joined''
                                     [(''roomId'', JStr (r_id (rw_room r))),
                                      (''roomName'', JStr (r_name (rw_room r))),
                                      (''memberCount'', JNum (int (rw_memberCount r))),
                                      (''recentMessages'',
                                         case messageHistory of
                                           Cached c \<Rightarrow> JUndefined
                                         | History msgs hasMore nextCursor \<Rightarrow> JArr (map messageJson msgs)),
                                      (''members'', JArr (map participantJson participants)),
                                      (''timestamp'', JNum now)])) (\<lambda>_.
                          io_do (emit (ToRoomExcept (strOf (d_roomId data)) (sock_id socket)) ''user_joined''
                                   [(''user'', userJson socket), (''roomId'', JStr (strOf (d_roomId data))),
                                    (''timestamp'', JNum now)]))))))))
                   (\<lambda>error. io_do (emit (ToSocket (sock_id socket)) ''join_room_error''
                                      [(''error'', JStr ''join_failed''), (''message'', JStr (errMessage error)),
                                       (''roomId'', optStr (d_roomId data))]))
                   w1))"

definition handleLeaveRoom :: "socket \<Rightarrow> client_data \<Rightarrow> time \<Rightarrow> world \<Rightarrow> world" where
  "handleLeaveRoom socket data now w =
     (if falsy (d_roomId data)
      then emit (ToSocket (sock_id socket)) ''leave_room_error''
             [(''error'', JStr ''missing_room_id''), (''message'', JStr ''Room ID is required'')] w
      else
        snd (io_catch
               (io_bind (leaveRoom (sock_userId socket) (strOf (d_roomId data)) now) (\<lambda>_.
                io_bind (io_do (socketLeave socket (strOf (d_roomId data)))) (\<lambda>_.
                io_bind (io_do (emit (ToSocket (sock_id socket)) ''room_left''
                           [(''roomId'', JStr (strOf (d_roomId data))), (''timestamp'', JNum now)])) (\<lambda>_.
                io_do (emit (ToRoomExcept (strOf (d_roomId data)) (sock_id socket)) ''user_left''
                         [(''user'', userJson socket), (''roomId'', JStr (strOf (d_roomId data))),
                          (''timestamp'', JNum now)])))))
               (\<lambda>error. io_do (emit (ToSocket (sock_id socket)) ''leave_room_error''
                                  [(''error'', JStr ''leave_failed''), (''message'', JStr (errMessage error)),
                                   (''roomId'', optStr (d_roomId data))]))
               w))"

text \<open>
  \<open>{ ...metadata, replyTo }\<close> as it is stored: \<open>JSON.stringify\<close> drops a \<open>replyTo\<close>
  that is undefined.
\<close>

definition mergeReplyTo :: "(string \<times> string) list \<Rightarrow> string option \<Rightarrow> (string \<times> string) list" where
  "mergeReplyTo metadata replyTo =
     (case replyTo of
        None \<Rightarrow> AList.delete ''replyTo'' metadata
      | Some r \<Rightarrow> AList.update ''replyTo'' r metadata)"

definition handleSendMessage :: "socket \<Rightarrow> client_data \<Rightarrow> time \<Rightarrow> world \<Rightarrow> world" where
  "handleSendMessage socket data now w =
     (case checkRateLimit socket ''send_message'' now w of
        (False, w1) \<Rightarrow> w1
      | (True, w1) \<Rightarrow>
          let type = (case d_type data of None \<Rightarrow> ''text'' | Some t \<Rightarrow> t);
              metadata = (case d_metadata data of None \<Rightarrow> [] | Some m \<Rightarrow> m)
          in
          if falsy (d_roomId data) \<or> falsy (d_content data)
          then emit (ToSocket (sock_id socket)) ''send_message_error''
                 [(''error'', JStr ''missing_required_fields''),
                  (''message'', JStr ''Room ID and content are required'')] w1
          else
            snd (io_catch
                   (io_bind (createMessage (strOf (d_roomId data)) (sock_userId socket)
                               (trim (strOf (d_content data))) type
                               (mergeReplyTo metadata (d_replyTo data)) now) (\<lambda>message.
                    io_bind (updateUserActivity (sock_userId socket) now) (\<lambda>_.
                    io_bind (io_do (emit (ToSocket (sock_id socket)) ''message_sent''
                               [(''messageId'', JNum (int (msg_id message))),
                                (''roomId'', JStr (msg_room_id message)),
                                (''timestamp'', JNum (msg_created_at message)),
                                (''status'', JStr ''sent'')])) (\<lambda>_.
                    io_do (emit (ToRoomExcept (strOf (d_roomId data)) (sock_id socket)) ''message_received''
                             [(''id'', JNum (int (msg_id message))),
                              (''roomId'', JStr (msg_room_id message)),
                              (''content'', JStr (msg_content message)),
                              (''type'', JStr (msg_type message)),
                              (''author'', userJson socket),
                              (''replyTo'', optStr (map_of metadata ''replyTo'')),
                              (''metadata'', metadataJson (msg_metadata message)),
                              (''createdAt'', JNum (msg_created_at message))])))))
                   (\<lambda>error. io_do (emit (ToSocket (sock_id socket)) ''send_message_error''
                                      [(''error'', JStr ''send_failed''), (''message'', JStr (errMessage error)),
                                       (''roomId'', optStr (d_roomId data))]))
                   w1))"

definition handleEditMessage :: "socket \<Rightarrow> client_data \<Rightarrow> time \<Rightarrow> world \<Rightarrow> world" where
  "handleEditMessage socket data now w =
     (if falsy (d_messageId data) \<or> falsy (d_content data)
      then emit (ToSocket (sock_id socket)) ''edit_message_error''
             [(''error'', JStr ''missing_required_fields''),
              (''message'', JStr ''Message ID and content are required'')] w
      else
        snd (io_catch
               (io_bind (updateMessage (strOf (d_messageId data)) (sock_userId socket)
                           \<lparr>ud_content = Some (trim (strOf (d_content data))), ud_metadata = None\<rparr> now) (\<lambda>message.
                  case msg_edited_at message of
                    None \<Rightarrow> io_throw ''Cannot read properties of undefined (reading 'toISOString')''
                  | Some editedAt \<Rightarrow>
                      io_bind (io_do (emit (ToSocket (sock_id socket)) ''message_edited''
                                 [(''messageId'', JNum (int (msg_id message))),
                                  (''content'', JStr (msg_content message)),
                                  (''editedAt'', JNum editedAt)])) (\<lambda>_.
                      io_do (emit (ToRoom (msg_room_id message)) ''message_updated''
                               [(''id'', JNum (int (msg_id message))),
                                (''content'', JStr (msg_content message)),
                                (''editedAt'', JNum editedAt),
                                (''roomId'', JStr (msg_room_id message))]))))
               (\<lambda>error. io_do (emit (ToSocket (sock_id socket)) ''edit_message_error''
                                  [(''error'', JStr ''edit_failed''), (''message'', JStr (errMessage error)),
                                   (''messageId'', optStr (d_messageId data))]))
               w))"

definition handleDeleteMessage :: "socket \<Rightarrow> client_data \<Rightarrow> time \<Rightarrow> world \<Rightarrow> world" where
  "handleDeleteMessage socket data now w =
     (if falsy (d_messageId data)
      then emit (ToSocket (sock_id socket)) ''delete_message_error''
             [(''error'', JStr ''missing_message_id''), (''message'', JStr ''Message ID is required'')] w
      else
        snd (io_catch
               (io_bind (getMessageById (strOf (d_messageId data))) (\<lambda>message.
                  case message of
                    None \<Rightarrow> io_do (emit (ToSocket (sock_id socket)) ''delete_message_error''
                                     [(''error'', JStr ''message_not_found''),
                                      (''message'', JStr ''Message not found'')])
                  | Some (m, username) \<Rightarrow>
                      io_bind (deleteMessage (strOf (d_messageId data)) (sock_userId socket) False now) (\<lambda>_.
                      io_bind (io_do (emit (ToSocket (sock_id socket)) ''message_deleted''
                                 [(''messageId'', optStr (d_messageId data)), (''timestamp'', JNum now)])) (\<lambda>_.
                      io_do (emit (ToRoom (msg_room_id m)) ''message_removed''
                               [(''messageId'', optStr (d_messageId data)),
                                (''roomId'', JStr (msg_room_id m)), (''timestamp'', JNum now)])))))
               (\<lambda>error. io_do (emit (ToSocket (sock_id socket)) ''delete_message_error''
                                  [(''error'', JStr ''delete_failed''), (''message'', JStr (errMessage error)),
                                   (''messageId'', optStr (d_messageId data))]))
               w))"

definition handleUpdatePresence :: "socket \<Rightarrow> client_data \<Rightarrow> time \<Rightarrow> world \<Rightarrow> world" where
  "handleUpdatePresence socket data now w =
     (case checkRateLimit socket ''update_presence'' now w of
        (False, w1) \<Rightarrow> w1
      | (True, w1) \<Rightarrow>
          if d_status data \<notin> {Some ''online'', Some ''away'', Some ''offline''}
          then emit (ToSocket (sock_id socket)) ''update_presence_error''
                 [(''error'', JStr ''invalid_status''),
                  (''message'', JStr ''Status must be online, away, or offline'')] w1
          else
            snd (io_catch
                   (io_bind (setUserPresence
                               (sock_userId socket,
                                \<lparr>p_status = strOf (d_status data), p_currentRoom = d_currentRoom data,
                                 p_lastActivity = now, p_connectionId = Some (sock_id socket)\<rparr>) now) (\<lambda>_.
                    io_bind (io_do (emit (ToSocket (sock_id socket)) ''presence_updated''
                               [(''status'', optStr (d_status data)), (''timestamp'', JNum now)])) (\<lambda>_.
                    io_bind (getUserRooms (sock_userId socket)) (\<lambda>userRooms.
                    io_each (\<lambda>room.
                       io_do (emit (ToRoomExcept (r_id (rw_room room)) (sock_id socket)) ''presence_changed''
                                [(''userId'', JStr (sock_userId socket)), (''status'', optStr (d_status data)),
                                 (''currentRoom'', optStr (d_currentRoom data)), (''timestamp'', JNum now)]))
                       userRooms))))
                   (\<lambda>error. io_do (emit (ToSocket (sock_id socket)) ''update_presence_error''
                                      [(''error'', JStr ''update_failed''),
                                       (''message'', JStr ''Failed to update presence'')]))
                   w1))"

section \<open>Notions used by the properties\<close>

text \<open>A call preserves a component of the state when no run of it changes that component.\<close>

definition preserves :: "(world \<Rightarrow> 'b) \<Rightarrow> 'a io \<Rightarrow> bool" where
  "preserves f m = (\<forall>w. f (snd (m w)) = f w)"

text \<open>A connection sends a sequence of \<open>send_message\<close> events, each at its time.\<close>

fun sendAll :: "socket \<Rightarrow> (client_data \<times> time) list \<Rightarrow> world \<Rightarrow> world" where
  "sendAll s [] w = w"
| "sendAll s ((d, t) # xs) w = sendAll s xs (handleSendMessage s d t w)"

text \<open>The rate limiter allows every event of the sequence.\<close>

fun allAllowed :: "socket \<Rightarrow> (client_data \<times> time) list \<Rightarrow> world \<Rightarrow> bool" where
  "allAllowed s [] w = True"
| "allAllowed s ((d, t) # xs) w =
     (fst (checkRateLimit s ''send_message'' t w) \<and> allAllowed s xs (handleSendMessage s d t w))"

text \<open>The entry of a connection's limiter for an action, \<open>limits[`${socketId}:${action}`]\<close>.\<close>

definition limiterEntry :: "socket \<Rightarrow> string \<Rightarrow> world \<Rightarrow> rate_entry option" where
  "limiterEntry s action w = rateLimiters w (sock_id s) (sock_id s @ '':'' @ action)"

text \<open>A call at time \<open>t\<close> opens a new window: there is no entry, or its window has elapsed.\<close>

definition freshWindow :: "socket \<Rightarrow> string \<Rightarrow> time \<Rightarrow> world \<Rightarrow> bool" where
  "freshWindow s action t w =
     (case limiterEntry s action w of None \<Rightarrow> True | Some e \<Rightarrow> t > rl_resetTime e)"

text \<open>The state after a rejected action: the \<open>rate_limit_exceeded\<close> event and nothing else.\<close>

definition rateLimitExceeded :: "socket \<Rightarrow> string \<Rightarrow> time \<Rightarrow> world \<Rightarrow> world" where
  "rateLimitExceeded s action now w =
     w\<lparr>effects := effects w @
          [Emit (ToSocket (sock_id s)) ''rate_limit_exceeded''
            [(''error'', JStr ''rate_limit_exceeded''), (''retryAfter'', JNum 60),
             (''endpoint'', JStr action), (''timestamp'', JNum now)]]\<rparr>"

text \<open>The events emitted so far, in order, and those with a given name.\<close>

fun emitted :: "effect \<Rightarrow> (target \<times> string \<times> (string \<times> jval) list) list" where
  "emitted (Emit tgt ev pl) = [(tgt, ev, pl)]"
| "emitted (Command c) = []"

definition outbox :: "world \<Rightarrow> (target \<times> string \<times> (string \<times> jval) list) list" where
  "outbox w = concat (map emitted (effects w))"

definition eventsNamed :: "string \<Rightarrow> world \<Rightarrow> (target \<times> string \<times> (string \<times> jval) list) list" where
  "eventsNamed ev w = filter (\<lambda>(tgt, e, pl). e = ev) (outbox w)"

text \<open>The store answers the next \<open>n\<close> queries, or commands, without a failure.\<close>

definition dbAnswers :: "nat \<Rightarrow> world \<Rightarrow> bool" where
  "dbAnswers n w = list_all (\<lambda>f. f = None) (take n (dbFaults w))"

definition redisAnswers :: "nat \<Rightarrow> world \<Rightarrow> bool" where
  "redisAnswers n w = list_all (\<lambda>f. f = None) (take n (redisFaults w))"

text \<open>
  What a teardown does for the rooms of its user, in order: for each room the removal
  from the participant set, then the \<open>user_left\<close> event to the room's other sockets.
\<close>

definition leaveNotices :: "socket \<Rightarrow> time \<Rightarrow> roomId list \<Rightarrow> effect list" where
  "leaveNotices socket now rids =
     concat (map (\<lambda>rid. [Command (SRem (ParticipantsKey rid) (sock_userId socket)),
                           Emit (ToRoomExcept rid (sock_id socket)) ''user_left''
                             [(''user'', userJson socket), (''roomId'', JStr rid),
                              (''timestamp'', JNum now)]]) rids)"

text \<open>A call only adds to the sequence of effects.\<close>

definition grows :: "'a io \<Rightarrow> bool" where
  "grows m = (\<forall>w. \<exists>ext. effects (snd (m w)) = effects w @ ext)"

text \<open>The row a soft delete at time \<open>now\<close> leaves in place of a message.\<close>

definition deleted :: "time \<Rightarrow> message_row \<Rightarrow> message_row" where
  "deleted now m =
     m\<lparr>msg_content := ''[Message deleted]'', msg_type := ''system'', msg_edited_at := Some now\<rparr>"

text \<open>
  The request for durable persistence that \<open>handleSendMessage\<close> makes for a message:
  its call of \<open>createMessage\<close>.
\<close>

definition persist :: "socket \<Rightarrow> client_data \<Rightarrow> time \<Rightarrow> message_row io" where
  "persist s d now =
     createMessage (strOf (d_roomId d)) (sock_userId s) (trim (strOf (d_content d)))
       (case d_type d of None \<Rightarrow> ''text'' | Some t \<Rightarrow> t)
       (mergeReplyTo (case d_metadata d of None \<Rightarrow> [] | Some m \<Rightarrow> m) (d_replyTo d)) now"

text \<open>
  What \<open>handleDisconnection\<close> does after it has removed the presence record: the rest of
  its \<open>try\<close> block.
\<close>

definition teardown :: "socket \<Rightarrow> time \<Rightarrow> unit io" where
  "teardown socket now =
     io_bind (getUserRooms (sock_userId socket)) (\<lambda>userRooms.
     io_bind (io_each (\<lambda>room.
                io_bind (removeUserFromRoom (sock_userId socket) (r_id (rw_room room))) (\<lambda>_.
                io_do (emit (ToRoomExcept (r_id (rw_room room)) (sock_id socket)) ''user_left''
                         [(''user'', userJson socket), (''roomId'', JStr (r_id (rw_room room))),
                          (''timestamp'', JNum now)])))
                userRooms) (\<lambda>_.
     io_bind (io_do (cleanupTypingForUser (sock_userId socket))) (\<lambda>_.
     removeSession (sock_id socket))))"

text \<open>A soft delete of message \<open>n\<close> at time \<open>now\<close>, as it acts on each row of the table.\<close>

definition soften :: "int \<Rightarrow> time \<Rightarrow> message_row \<Rightarrow> message_row" where
  "soften n now m = (if int (msg_id m) = n then deleted now m else m)"

subsection \<open>Example states\<close>

text \<open>
  The database of the examples reads a \<open>bigint\<close> in decimal notation: blanks, an optional
  sign, digits, blanks; the value lies between \<open>-2^63\<close> and \<open>2^63 - 1\<close>.
\<close>

definition isDigit :: "char \<Rightarrow> bool" where
  "isDigit c = (c \<in> set ''0123456789'')"

definition decimal :: "string \<Rightarrow> int" where
  "decimal s = foldl (\<lambda>n c. 10 * n + (of_char c - 48)) 0 s"

definition decimalBigint :: "string \<Rightarrow> err + int" where
  "decimalBigint s =
     (let t = rev (dropWhile isSpace (rev (dropWhile isSpace s)));
          negative = (take 1 t = ''-'');
          digits = (if take 1 t = ''-'' \<or> take 1 t = ''+'' then drop 1 t else t);
          v = (if negative then - decimal digits else decimal digits)
      in if digits = [] \<or> \<not> list_all isDigit digits
         then Inl (Error (''invalid input syntax for type bigint: '' @ [CHR 0x22] @ s @ [CHR 0x22]))
         else if v < - (2 ^ 63) \<or> 2 ^ 63 - 1 < v
         then Inl (Error (''value '' @ [CHR 0x22] @ s @ [CHR 0x22] @ '' is out of range for type bigint''))
         else Inr v)"

text \<open>A server that holds nothing, a connection of alice, and what she may send.\<close>

definition emptyDb :: database where
  "emptyDb = \<lparr>users = [], chat_rooms = [], room_memberships = [], messages = [],
              next_membership_id = 1, next_message_id = 1, bigint_in = decimalBigint\<rparr>"

definition emptyRedis :: redis_store where
  "emptyRedis = \<lparr>presence = Map.empty, participants = (\<lambda>_. {}), sessions = Map.empty, cache = []\<rparr>"

definition emptyWorld :: world where
  "emptyWorld = \<lparr>db = emptyDb, dbFaults = [], redis = emptyRedis, redisFaults = [],
                 typingUsers = [], timers = [], nextTimer = 0, rateLimiters = (\<lambda>_. Map.empty),
                 socketRooms = (\<lambda>_. {}), effects = []\<rparr>"

definition alice :: socket where
  "alice = \<lparr>sock_id = ''s1'', sock_userId = ''u1'', sock_username = ''alice''\<rparr>"

definition noData :: client_data where
  "noData = \<lparr>d_roomId = None, d_content = None, d_type = None, d_replyTo = None,
             d_metadata = None, d_messageId = None, d_status = None, d_currentRoom = None\<rparr>"

definition hello :: client_data where
  "hello = noData\<lparr>d_roomId := Some ''general'', d_content := Some ''hi''\<rparr>"

text \<open>
  Three users and a room \<open>general\<close> that alice owns and bob has joined, and the state
  of a server that holds them.
\<close>

definition bob :: socket where
  "bob = \<lparr>sock_id = ''s2'', sock_userId = ''u2'', sock_username = ''bob''\<rparr>"

definition chatDb :: database where
  "chatDb =
     \<lparr>users = [\<lparr>u_id = ''u1'', u_username = ''alice''\<rparr>, \<lparr>u_id = ''u2'', u_username = ''bob''\<rparr>,
               \<lparr>u_id = ''u3'', u_username = ''carol''\<rparr>],
      chat_rooms = [\<lparr>r_id = ''general'', r_name = ''General'', r_type = ''public'',
                     r_owner_id = Some ''u1'', r_created_at = 0, r_updated_at = 0\<rparr>],
      room_memberships =
        [\<lparr>m_id = 1, m_user_id = ''u1'', m_room_id = ''general'', m_role = ''owner'',
          m_joined_at = 0, m_last_read_at = 0, m_notifications = True\<rparr>,
         \<lparr>m_id = 2, m_user_id = ''u2'', m_room_id = ''general'', m_role = ''member'',
          m_joined_at = 0, m_last_read_at = 0, m_notifications = True\<rparr>],
      messages = [],
      next_membership_id = 3, next_message_id = 1, bigint_in = decimalBigint\<rparr>"

definition chatWorld :: world where
  "chatWorld = emptyWorld\<lparr>db := chatDb\<rparr>"

definition inGeneral :: client_data where
  "inGeneral = noData\<lparr>d_roomId := Some ''general''\<rparr>"

text \<open>
  The same server when the database answers the next query and loses its connection at
  the one after; and a connection of carol, who has joined no room.
\<close>

definition insertFails :: world where
  "insertFails = chatWorld\<lparr>dbFaults := [None, Some ''Connection terminated unexpectedly'']\<rparr>"

definition carol :: socket where
  "carol = \<lparr>sock_id = ''s3'', sock_userId = ''u3'', sock_username = ''carol''\<rparr>"

text \<open>
  More example states: alice is online; alice has used up the limits of her window; the
  room holds one message of alice, which she may edit or delete.
\<close>

definition onlineWorld :: world where
  "onlineWorld =
     chatWorld\<lparr>redis := emptyRedis\<lparr>presence :=
       [''u1'' \<mapsto> (\<lparr>p_status = ''online'', p_currentRoom = None, p_lastActivity = 0,
                     p_connectionId = Some ''s1''\<rparr>, 30000)]\<rparr>\<rparr>"

definition goOffline :: client_data where
  "goOffline = noData\<lparr>d_status := Some ''offline''\<rparr>"

definition throttled :: world where
  "throttled =
     chatWorld\<lparr>rateLimiters := (\<lambda>_. Map.empty)(''s1'' :=
       [''s1:send_message'' \<mapsto> \<lparr>rl_count = 30, rl_resetTime = 60000\<rparr>,
        ''s1:join_room'' \<mapsto> \<lparr>rl_count = 10, rl_resetTime = 60000\<rparr>,
        ''s1:update_presence'' \<mapsto> \<lparr>rl_count = 60, rl_resetTime = 60000\<rparr>,
        ''s1:start_typing'' \<mapsto> \<lparr>rl_count = 20, rl_resetTime = 60000\<rparr>])\<rparr>"

definition oneMessage :: world where
  "oneMessage =
     chatWorld\<lparr>db := chatDb\<lparr>messages :=
       [\<lparr>msg_id = 1, msg_room_id = ''general'', msg_user_id = ''u1'', msg_content = ''hi'',
         msg_type = ''text'', msg_metadata = [], msg_created_at = 0, msg_edited_at = None\<rparr>],
       next_message_id := 2\<rparr>\<rparr>"

definition rewrite :: client_data where
  "rewrite = noData\<lparr>d_messageId := Some ''1'', d_content := Some ''bye''\<rparr>"

text \<open>
  The server with alice's message when the latest page of the room's history is in the
  cache, as a read at time 0 left it.
\<close>

definition staleCache :: world where
  "staleCache =
     oneMessage\<lparr>redis := emptyRedis\<lparr>cache :=
       [((''general'', None),
         ([(\<lparr>msg_id = 1, msg_room_id = ''general'', msg_user_id = ''u1'', msg_content = ''hi'',
             msg_type = ''text'', msg_metadata = [], msg_created_at = 0, msg_edited_at = None\<rparr>,
            ''alice'')], 300000))]\<rparr>\<rparr>"

text \<open>
  The server when carol's connection has used up its sends of the window, and when the
  database has lost its connection.
\<close>

definition carolThrottled :: world where
  "carolThrottled =
     chatWorld\<lparr>rateLimiters := (\<lambda>_. Map.empty)(''s3'' :=
       [''s3:send_message'' \<mapsto> \<lparr>rl_count = 30, rl_resetTime = 60000\<rparr>])\<rparr>"

definition dbDown :: world where
  "dbDown = chatWorld\<lparr>dbFaults := [Some ''Connection terminated unexpectedly'']\<rparr>"

text \<open>The same server when the key-value store has lost its connection.\<close>

definition redisDown :: world where
  "redisDown = chatWorld\<lparr>redisFaults := [Some ''Connection is closed'']\<rparr>"

section \<open>Frame lemmas\<close>

lemma preserves_ret: "preserves f (io_ret x)"
  by (simp add: preserves_def io_ret_def)

lemma preserves_throw: "preserves f (io_throw m)"
  by (simp add: preserves_def io_throw_def)

lemma preserves_bind:
  assumes "preserves f m" and "\<And>x. preserves f (g x)"
  shows "preserves f (io_bind m g)"
  using assms by (auto simp: preserves_def io_bind_def split: prod.splits sum.splits) (metis snd_conv)+

lemma preserves_catch:
  assumes "preserves f m" and "\<And>e. preserves f (h e)"
  shows "preserves f (io_catch m h)"
  using assms by (auto simp: preserves_def io_catch_def split: prod.splits sum.splits) (metis snd_conv)+

lemma preserves_do: "(\<And>w. f (g w) = f w) \<Longrightarrow> preserves f (io_do g)"
  by (simp add: preserves_def io_do_def)

lemma preserves_query:
  "(\<And>w d fs. f (w\<lparr>db := d, dbFaults := fs\<rparr>) = f w) \<Longrightarrow> (\<And>w fs. f (w\<lparr>dbFaults := fs\<rparr>) = f w) \<Longrightarrow> preserves f (query stmt)"
  by (auto simp: preserves_def query_def split: list.splits option.splits prod.splits)

lemma preserves_command:
  "(\<And>w d fs. f (w\<lparr>redis := d, redisFaults := fs, effects := effects w @ [Command cmd]\<rparr>) = f w) \<Longrightarrow>
   (\<And>w fs. f (w\<lparr>redisFaults := fs\<rparr>) = f w) \<Longrightarrow> preserves f (command cmd c)"
  by (auto simp: preserves_def command_def split: list.splits option.splits prod.splits)

lemma preserves_each: "(\<And>x. preserves f (g x)) \<Longrightarrow> preserves f (io_each g xs)"
  by (induction xs) (auto intro: preserves_ret preserves_bind)

lemma preserves_map: "(\<And>x. preserves f (g x)) \<Longrightarrow> preserves f (io_map g xs)"
  by (induction xs) (auto intro!: preserves_ret preserves_bind)

lemma preserves_all: "(\<And>x. preserves f (g x)) \<Longrightarrow> preserves f (io_all g xs)"
proof (induction xs)
  case Nil
  then show ?case by (simp add: preserves_ret)
next
  case (Cons x xs)
  then show ?case
    by (auto simp: preserves_def split: prod.splits sum.splits) (metis snd_conv)+
qed


lemma preserves_if: "preserves f a \<Longrightarrow> preserves f b \<Longrightarrow> preserves f (if c then a else b)"
  by simp

lemma preserves_list:
  "preserves f a \<Longrightarrow> (\<And>x xs. preserves f (b x xs)) \<Longrightarrow> preserves f (case l of [] \<Rightarrow> a | x # xs \<Rightarrow> b x xs)"
  by (cases l) simp_all

lemma preserves_option:
  "preserves f a \<Longrightarrow> (\<And>x. preserves f (b x)) \<Longrightarrow> preserves f (case l of None \<Rightarrow> a | Some x \<Rightarrow> b x)"
  by (cases l) simp_all

lemma preserves_prod:
  "(\<And>x y. preserves f (b x y)) \<Longrightarrow> preserves f (case p of (x, y) \<Rightarrow> b x y)"
  by (cases p) simp

lemma preserves_let: "(\<And>x. preserves f (b x)) \<Longrightarrow> preserves f (Let a b)"
  by simp

lemma preserves_transaction:
  assumes m: "preserves f m"
    and q: "preserves f (query noop)"
    and d: "\<And>w d. f (w\<lparr>db := d\<rparr>) = f w"
  shows "preserves f (transaction m)"
proof -
  define inner where
    "inner = io_bind (query noop) (\<lambda>_. io_bind m (\<lambda>r. io_bind (query noop) (\<lambda>_. io_ret r)))"
  have inner: "preserves f inner"
    unfolding inner_def by (intro preserves_bind q m preserves_ret)
  define rest where
    "rest = (\<lambda>w0. case inner w0 of
         (Inr r, w1) \<Rightarrow> (Inr r, w1)
       | (Inl e, w1) \<Rightarrow>
           (case query noop (w1\<lparr>db := restoreTables (db w0) (db w1)\<rparr>) of
              (Inl e', w2) \<Rightarrow> (Inl e', w2)
            | (Inr _, w2) \<Rightarrow> (Inl e, w2)))"
  have tr: "transaction m = io_bind (query noop) (\<lambda>_. rest)"
    unfolding transaction_def inner_def rest_def ..
  have rest: "preserves f rest"
    unfolding preserves_def
  proof
    fix w0
    obtain r1 w1 where b: "inner w0 = (r1, w1)" by (cases "inner w0")
    have f1: "f w1 = f w0" using inner b unfolding preserves_def by (metis snd_conv)
    obtain r2 w2 where c: "query noop (w1\<lparr>db := restoreTables (db w0) (db w1)\<rparr>) = (r2, w2)"
      by (cases "query noop (w1\<lparr>db := restoreTables (db w0) (db w1)\<rparr>)")
    have "f w2 = f (w1\<lparr>db := restoreTables (db w0) (db w1)\<rparr>)"
      using q c unfolding preserves_def by (metis snd_conv)
    then have f2: "f w2 = f w0" using f1 d by simp
    show "f (snd (rest w0)) = f w0"
      using b c f1 f2 by (cases r1; cases r2) (simp_all add: rest_def)
  qed
  show ?thesis unfolding tr by (intro preserves_bind q rest)
qed

lemmas pres = preserves_ret preserves_throw preserves_bind preserves_catch preserves_do
  preserves_query preserves_command preserves_each preserves_map preserves_all
  preserves_if preserves_list preserves_option preserves_prod preserves_let

lemma rl_redis [simp]:
  "preserves rateLimiters (setUserPresence p now)"
  "preserves rateLimiters (getUserPresence uid now)"
  "preserves rateLimiters (removeUserPresence uid)"
  "preserves rateLimiters (addUserToRoom uid rid)"
  "preserves rateLimiters (removeUserFromRoom uid rid)"
  "preserves rateLimiters (removeSession cid)"
  "preserves rateLimiters (cacheMessageHistory rid msgs cursor now)"
  "preserves rateLimiters (getCachedMessageHistory rid cursor now)"
  unfolding setUserPresence_def getUserPresence_def removeUserPresence_def addUserToRoom_def
    removeUserFromRoom_def removeSession_def cacheMessageHistory_def getCachedMessageHistory_def
  by (rule preserves_command; simp)+

lemma rl_updateUserActivity [simp]: "preserves rateLimiters (updateUserActivity uid now)"
  unfolding updateUserActivity_def by (intro pres rl_redis)

lemma rl_query [simp]: "preserves rateLimiters (query stmt)"
  by (rule preserves_query) simp_all

lemma rl_command [simp]: "preserves rateLimiters (command cmd c)"
  by (rule preserves_command) simp_all

lemma rl_clearMessageCache [simp]: "preserves rateLimiters (clearMessageCache rid now)"
  unfolding clearMessageCache_def by (intro pres rl_command)

lemma rl_validateUserInRoom [simp]: "preserves rateLimiters (validateUserInRoom uid rid)"
  unfolding validateUserInRoom_def by (intro pres rl_query)

lemma rl_createMessage [simp]: "preserves rateLimiters (createMessage rid uid c t md now)"
  unfolding createMessage_def by (intro pres rl_query rl_validateUserInRoom rl_clearMessageCache)

lemma rl_updateMessage [simp]: "preserves rateLimiters (updateMessage mid uid upd now)"
  unfolding updateMessage_def by (intro pres rl_query rl_clearMessageCache)

lemma rl_deleteMessage [simp]: "preserves rateLimiters (deleteMessage mid uid adm now)"
  unfolding deleteMessage_def by (intro pres rl_query rl_clearMessageCache)

lemma rl_getMessageById [simp]: "preserves rateLimiters (getMessageById mid)"
  unfolding getMessageById_def by (intro pres rl_query)



lemma rl_leaveRoom [simp]: "preserves rateLimiters (leaveRoom uid rid now)"
  unfolding leaveRoom_def
  by (rule preserves_transaction) (intro pres rl_query rl_redis | simp)+

lemma rl_emit [simp]: "rateLimiters (emit t e p w) = rateLimiters w"
  by (simp add: emit_def)

section \<open>The rate limiter\<close>

lemma limitOf_send [simp]: "limitOf ''send_message'' = 30"
  by (simp add: limitOf_def actionLimits_def)

lemma check_first:
  assumes "freshWindow s a t w"
  shows "fst (checkRateLimit s a t w)"
    and "limiterEntry s a (snd (checkRateLimit s a t w)) = Some \<lparr>rl_count = 1, rl_resetTime = t + 60000\<rparr>"
  using assms
  by (auto simp: freshWindow_def limiterEntry_def checkRateLimit_def createRateLimiter_def Let_def
      split: option.splits)

lemma check_step:
  assumes "limiterEntry s a w = Some \<lparr>rl_count = k, rl_resetTime = r\<rparr>" and "k < limitOf a" and "t \<le> r"
  shows "fst (checkRateLimit s a t w)"
    and "limiterEntry s a (snd (checkRateLimit s a t w)) = Some \<lparr>rl_count = Suc k, rl_resetTime = r\<rparr>"
  using assms
  by (auto simp: limiterEntry_def checkRateLimit_def createRateLimiter_def Let_def)

lemma check_reject:
  assumes "limiterEntry s a w = Some e" and "limitOf a \<le> rl_count e" and "t \<le> rl_resetTime e"
  shows "checkRateLimit s a t w = (False, rateLimitExceeded s a t w)"
  using assms
  by (auto simp: limiterEntry_def checkRateLimit_def createRateLimiter_def Let_def rateLimitExceeded_def emit_def)

lemma rl_handleSendMessage:
  "rateLimiters (handleSendMessage s d t w) = rateLimiters (snd (checkRateLimit s ''send_message'' t w))"
proof (cases "checkRateLimit s ''send_message'' t w")
  case (Pair ok w1)
  show ?thesis
  proof (cases ok)
    case False
    with Pair show ?thesis by (simp add: handleSendMessage_def)
  next
    case True
    have "preserves rateLimiters (io_catch
                   (io_bind (createMessage (strOf (d_roomId d)) (sock_userId s)
                               (trim (strOf (d_content d))) ty md now) (\<lambda>message.
                    io_bind (updateUserActivity (sock_userId s) now) (\<lambda>_.
                    io_bind (io_do (emit (ToSocket (sock_id s)) ''message_sent'' (p1 message))) (\<lambda>_.
                    io_do (emit (ToRoomExcept (strOf (d_roomId d)) (sock_id s)) ''message_received'' (p2 message))))))
                   (\<lambda>error. io_do (emit (ToSocket (sock_id s)) ''send_message_error'' (p3 error))))"
      for ty md now p1 p2 p3
      by (intro pres rl_createMessage rl_updateUserActivity) simp_all
    then show ?thesis using Pair True
      by (simp add: handleSendMessage_def preserves_def Let_def)
  qed
qed


lemma send_step:
  assumes "limiterEntry s ''send_message'' w = Some \<lparr>rl_count = k, rl_resetTime = r\<rparr>"
    and "k < 30" and "t \<le> r"
  shows "fst (checkRateLimit s ''send_message'' t w)"
    and "limiterEntry s ''send_message'' (handleSendMessage s d t w) = Some \<lparr>rl_count = Suc k, rl_resetTime = r\<rparr>"
  using check_step [OF assms(1) _ assms(3)] assms(2)
  by (simp_all add: limiterEntry_def rl_handleSendMessage)

lemma send_run:
  assumes "limiterEntry s ''send_message'' w = Some \<lparr>rl_count = k, rl_resetTime = r\<rparr>"
    and "k + length xs \<le> 30" and "\<forall>(d, t) \<in> set xs. t \<le> r"
  shows "allAllowed s xs w \<and>
         limiterEntry s ''send_message'' (sendAll s xs w) = Some \<lparr>rl_count = k + length xs, rl_resetTime = r\<rparr>"
  using assms
proof (induction xs arbitrary: w k)
  case Nil
  then show ?case by simp
next
  case (Cons x xs)
  obtain d t where x: "x = (d, t)" by (cases x)
  have k: "k < 30" and t: "t \<le> r" using Cons.prems x by auto
  note st = send_step(1) [OF Cons.prems(1) k t] send_step(2) [OF Cons.prems(1) k t, where d = d]
  have "allAllowed s xs (handleSendMessage s d t w) \<and>
        limiterEntry s ''send_message'' (sendAll s xs (handleSendMessage s d t w)) =
          Some \<lparr>rl_count = Suc k + length xs, rl_resetTime = r\<rparr>"
    using Cons.prems by (intro Cons.IH st(2)) auto
  then show ?case using st(1) x by simp
qed

lemma send_reject:
  assumes "limiterEntry s ''send_message'' w = Some e" and "30 \<le> rl_count e" and "t \<le> rl_resetTime e"
  shows "handleSendMessage s d t w = rateLimitExceeded s ''send_message'' t w"
  using check_reject [OF assms(1) _ assms(3)] assms(2)
  by (simp add: handleSendMessage_def)


text \<open>
  C7. A connection whose first \<open>send_message\<close> opens a window at \<open>t0\<close> and that sends
  \<open>N = 30\<close> messages, the threshold of \<open>send_message\<close>, within the window has all of them
  allowed by the limiter; one more send within the window is rejected, and leaves the state
  as it was (nothing stored, nothing fanned out) but for one \<open>rate_limit_exceeded\<close> event
  with \<open>retryAfter = 60\<close> emitted to the sender.
\<close>

theorem send_rate_limit:
  assumes fresh: "freshWindow s ''send_message'' t0 w"
    and len: "Suc (length rest) = limitOf ''send_message''"
    and win: "\<forall>(d, t) \<in> set (rest @ [(dn, tn)]). t \<le> t0 + 60000"
  shows "allAllowed s ((d0, t0) # rest) w \<and>
         handleSendMessage s dn tn (sendAll s ((d0, t0) # rest) w) =
           (sendAll s ((d0, t0) # rest) w)
             \<lparr>effects := effects (sendAll s ((d0, t0) # rest) w) @
                [Emit (ToSocket (sock_id s)) ''rate_limit_exceeded''
                  [(''error'', JStr ''rate_limit_exceeded''), (''retryAfter'', JNum 60),
                   (''endpoint'', JStr ''send_message''), (''timestamp'', JNum tn)]]\<rparr>"
proof -
  let ?w1 = "handleSendMessage s d0 t0 w"
  have first: "fst (checkRateLimit s ''send_message'' t0 w)"
    and e1: "limiterEntry s ''send_message'' ?w1 = Some \<lparr>rl_count = 1, rl_resetTime = t0 + 60000\<rparr>"
    using check_first [OF fresh] by (simp_all add: limiterEntry_def rl_handleSendMessage)
  have run: "allAllowed s rest ?w1 \<and>
        limiterEntry s ''send_message'' (sendAll s rest ?w1) =
          Some \<lparr>rl_count = 1 + length rest, rl_resetTime = t0 + 60000\<rparr>"
    using len win by (intro send_run e1) auto
  have "handleSendMessage s dn tn (sendAll s rest ?w1) =
          rateLimitExceeded s ''send_message'' tn (sendAll s rest ?w1)"
    using run len win
    by (intro send_reject [where e = "\<lparr>rl_count = 1 + length rest, rl_resetTime = t0 + 60000\<rparr>"]) auto
  then show ?thesis using first run by (simp add: rateLimitExceeded_def)
qed

theorem send_rate_limit_witness:
  "allAllowed alice ((hello, 0) # replicate 29 (hello, 1000)) chatWorld \<and>
   handleSendMessage alice hello 2000 (sendAll alice ((hello, 0) # replicate 29 (hello, 1000)) chatWorld) =
     (sendAll alice ((hello, 0) # replicate 29 (hello, 1000)) chatWorld)
       \<lparr>effects := effects (sendAll alice ((hello, 0) # replicate 29 (hello, 1000)) chatWorld) @
          [Emit (ToSocket (sock_id alice)) ''rate_limit_exceeded''
            [(''error'', JStr ''rate_limit_exceeded''), (''retryAfter'', JNum 60),
             (''endpoint'', JStr ''send_message''), (''timestamp'', JNum 2000)]]\<rparr>"
  using send_rate_limit [of alice 0 chatWorld "replicate 29 (hello, 1000)" hello 2000 hello]
  by (simp add: freshWindow_def limiterEntry_def chatWorld_def emptyWorld_def)

lemma check_frame [simp]:
  "db (snd (checkRateLimit s a now w)) = db w"
  "dbFaults (snd (checkRateLimit s a now w)) = dbFaults w"
  "redis (snd (checkRateLimit s a now w)) = redis w"
  "redisFaults (snd (checkRateLimit s a now w)) = redisFaults w"
  "typingUsers (snd (checkRateLimit s a now w)) = typingUsers w"
  "timers (snd (checkRateLimit s a now w)) = timers w"
  "nextTimer (snd (checkRateLimit s a now w)) = nextTimer w"
  "socketRooms (snd (checkRateLimit s a now w)) = socketRooms w"
  by (simp_all add: checkRateLimit_def emit_def Let_def split: prod.splits)

lemma check_accept_effects [simp]:
  "fst (checkRateLimit s a now w) \<Longrightarrow> effects (snd (checkRateLimit s a now w)) = effects w"
  by (simp add: checkRateLimit_def emit_def Let_def split: prod.splits if_splits)

lemma check_rejected:
  assumes "\<not> fst (checkRateLimit s a now w)"
  shows "snd (checkRateLimit s a now w) = rateLimitExceeded s a now w"
proof -
  have "snd (createRateLimiter (sock_id s) (rateLimiters w (sock_id s)) a now) = rateLimiters w (sock_id s)"
    using assms
    by (auto simp: checkRateLimit_def createRateLimiter_def Let_def split: prod.splits option.splits if_splits)
  then show ?thesis using assms
    by (auto simp: checkRateLimit_def rateLimitExceeded_def emit_def Let_def split: prod.splits)
qed

section \<open>Typing indicators: repeated start signals\<close>

text \<open>
  C1, as stated, fails. Alice signals \<open>start_typing\<close> in \<open>general\<close> at time 0 and again at
  time 1000. When the second signal arrives her typing entry exists and its timer (due at
  3000) has not fired, and yet the room is sent a second \<open>user_typing\<close> event.
\<close>

theorem start_typing_rebroadcast_counterexample:
  "typingEntry (typingUsers (runTimers 1000 (handleStartTyping alice inGeneral 0 chatWorld)))
     ''general'' ''u1'' = Some \<lparr>t_username = ''alice'', t_timeout = 0\<rparr> \<and>
   eventsNamed ''user_typing''
     (handleStartTyping alice inGeneral 1000
        (runTimers 1000 (handleStartTyping alice inGeneral 0 chatWorld))) =
     [(ToRoomExcept ''general'' ''s1'', ''user_typing'',
        [(''userId'', JStr ''u1''), (''username'', JStr ''alice''), (''roomId'', JStr ''general''),
         (''timestamp'', JNum 0)]),
      (ToRoomExcept ''general'' ''s1'', ''user_typing'',
        [(''userId'', JStr ''u1''), (''username'', JStr ''alice''), (''roomId'', JStr ''general''),
         (''timestamp'', JNum 1000)])]"
  by (simp add: handleStartTyping_def checkRateLimit_def createRateLimiter_def chatWorld_def
      emptyWorld_def alice_def inGeneral_def noData_def Let_def typingEntry_def setTimeout_def
      clearTimeout_def emit_def runTimers_def fireTimer_def eventsNamed_def outbox_def limitOf_def
      actionLimits_def)

text \<open>
  C1, amended. Every \<open>start_typing\<close> signal that the rate limiter allows and that names a
  room broadcasts one \<open>user_typing\<close> event to the room's other subscribers, whether or
  not a typing entry of that user for that room exists already. The signal stores the
  entry with a new timer due 3 seconds later, and cancels the timer of the entry it
  replaces.
\<close>

theorem start_typing_broadcasts:
  assumes ok: "fst (checkRateLimit s ''start_typing'' now w)"
    and room: "d_roomId d = Some rid" "rid \<noteq> []"
  shows "effects (handleStartTyping s d now w) =
           effects w @
             [Emit (ToRoomExcept rid (sock_id s)) ''user_typing''
                [(''userId'', JStr (sock_userId s)), (''username'', JStr (sock_username s)),
                 (''roomId'', JStr rid), (''timestamp'', JNum now)]] \<and>
         typingEntry (typingUsers (handleStartTyping s d now w)) rid (sock_userId s) =
           Some \<lparr>t_username = sock_username s, t_timeout = nextTimer w\<rparr> \<and>
         timers (handleStartTyping s d now w) =
           (case typingEntry (typingUsers w) rid (sock_userId s) of
              None \<Rightarrow> timers w
            | Some e \<Rightarrow> filter (\<lambda>t. tm_handle t \<noteq> t_timeout e) (timers w)) @
           [\<lparr>tm_handle = nextTimer w, tm_due = now + 3000, tm_socket = s, tm_roomId = rid\<rparr>]"
proof -
  obtain w1 where c: "checkRateLimit s ''start_typing'' now w = (True, w1)"
    using ok by (cases "checkRateLimit s ''start_typing'' now w") auto
  have w1: "effects w1 = effects w" "typingUsers w1 = typingUsers w" "timers w1 = timers w"
    "nextTimer w1 = nextTimer w"
    using check_accept_effects [OF ok] check_frame [of s "''start_typing''" now w] c by simp_all
  show ?thesis
    using c room w1
    by (auto simp: handleStartTyping_def Let_def setTimeout_def clearTimeout_def emit_def
        typingEntry_def map_of_map_entry update_conv' split: option.splits)
qed

theorem start_typing_broadcasts_witness:
  "effects (handleStartTyping alice inGeneral 1000 (handleStartTyping alice inGeneral 0 chatWorld)) =
     effects (handleStartTyping alice inGeneral 0 chatWorld) @
       [Emit (ToRoomExcept ''general'' ''s1'') ''user_typing''
          [(''userId'', JStr ''u1''), (''username'', JStr ''alice''),
           (''roomId'', JStr ''general''), (''timestamp'', JNum 1000)]] \<and>
   typingEntry
     (typingUsers (handleStartTyping alice inGeneral 1000 (handleStartTyping alice inGeneral 0 chatWorld)))
     ''general'' ''u1'' = Some \<lparr>t_username = ''alice'', t_timeout = 1\<rparr> \<and>
   timers (handleStartTyping alice inGeneral 1000 (handleStartTyping alice inGeneral 0 chatWorld)) =
     [\<lparr>tm_handle = 1, tm_due = 4000, tm_socket = alice, tm_roomId = ''general''\<rparr>]"
proof -
  let ?w = "handleStartTyping alice inGeneral 0 chatWorld"
  have w: "?w = chatWorld
      \<lparr>typingUsers := [(''general'', [(''u1'', \<lparr>t_username = ''alice'', t_timeout = 0\<rparr>)])],
       timers := [\<lparr>tm_handle = 0, tm_due = 3000, tm_socket = alice, tm_roomId = ''general''\<rparr>],
       nextTimer := 1,
       rateLimiters := (\<lambda>_. Map.empty)(''s1'' := [''s1:start_typing'' \<mapsto> \<lparr>rl_count = 1, rl_resetTime = 60000\<rparr>]),
       effects := [Emit (ToRoomExcept ''general'' ''s1'') ''user_typing''
          [(''userId'', JStr ''u1''), (''username'', JStr ''alice''),
           (''roomId'', JStr ''general''), (''timestamp'', JNum 0)]]\<rparr>"
    by (simp add: handleStartTyping_def checkRateLimit_def createRateLimiter_def chatWorld_def
      emptyWorld_def alice_def inGeneral_def noData_def Let_def typingEntry_def setTimeout_def
      clearTimeout_def emit_def)
  have ok: "fst (checkRateLimit alice ''start_typing'' 1000 ?w)"
    unfolding w
    by (simp add: checkRateLimit_def createRateLimiter_def chatWorld_def emptyWorld_def alice_def
        Let_def limitOf_def actionLimits_def)
  have room: "d_roomId inGeneral = Some ''general''" "''general'' \<noteq> []"
    by (simp_all add: inGeneral_def noData_def)
  have a: "sock_id alice = ''s1''" "sock_userId alice = ''u1''" "sock_username alice = ''alice''"
    by (simp_all add: alice_def)
  have n: "nextTimer ?w = 1"
    "timers ?w = [\<lparr>tm_handle = 0, tm_due = 3000, tm_socket = alice, tm_roomId = ''general''\<rparr>]"
    "typingEntry (typingUsers ?w) ''general'' ''u1'' = Some \<lparr>t_username = ''alice'', t_timeout = 0\<rparr>"
    unfolding w by (simp_all add: typingEntry_def chatWorld_def emptyWorld_def)
  show ?thesis
    using start_typing_broadcasts [OF ok room] by (simp add: a n)
qed

section \<open>Sending a message\<close>

lemma emit_frame [simp]:
  "db (emit t e p w) = db w"
  "dbFaults (emit t e p w) = dbFaults w"
  "redis (emit t e p w) = redis w"
  "redisFaults (emit t e p w) = redisFaults w"
  "typingUsers (emit t e p w) = typingUsers w"
  "timers (emit t e p w) = timers w"
  by (simp_all add: emit_def)

lemma outbox_emit [simp]: "outbox (emit t e p w) = outbox w @ [(t, e, p)]"
  by (simp add: outbox_def emit_def)

lemma outbox_query [simp]: "preserves outbox (query stmt)"
  by (rule preserves_query) (simp_all add: outbox_def)

lemma outbox_command [simp]: "preserves outbox (command cmd c)"
  by (rule preserves_command) (simp_all add: outbox_def)

lemma outbox_createMessage: "preserves outbox (createMessage rid uid c t md now)"
  unfolding createMessage_def validateUserInRoom_def clearMessageCache_def
  by (intro pres outbox_query outbox_command)

lemma outbox_check [simp]:
  "fst (checkRateLimit s a now w) \<Longrightarrow> outbox (snd (checkRateLimit s a now w)) = outbox w"
  by (simp add: outbox_def)

lemmas eval_send =
  handleSendMessage_def checkRateLimit_def createRateLimiter_def limitOf_def actionLimits_def
  createMessage_def validateUserInRoom_def clearMessageCache_def insertMessage_def touchRoom_def
  contentOk_def updateUserActivity_def getUserPresence_def setUserPresence_def liveCache_def
  query_def command_def select_def io_bind_def io_catch_def io_do_def io_throw_def io_ret_def
  membershipsOf_def emit_def falsy_def strOf_def optStr_def trim_def isSpace_def mergeReplyTo_def
  userJson_def metadataJson_def Let_def

lemmas eval_chat =
  chatWorld_def chatDb_def emptyWorld_def emptyDb_def emptyRedis_def alice_def bob_def carol_def
  hello_def inGeneral_def noData_def

text \<open>
  C2, as stated, fails. Alice, a member of \<open>general\<close>, sends \<open>hi\<close>; the limiter allows it,
  the membership check passes and the \<open>INSERT\<close> fails. No \<open>message_received\<close> is fanned
  out: the only event is a \<open>send_message_error\<close> with error \<open>send_failed\<close> to alice.
\<close>

theorem persistence_failure_counterexample:
  "fst (checkRateLimit alice ''send_message'' 0 insertFails) \<and>
   effects (handleSendMessage alice hello 0 insertFails) =
     [Emit (ToSocket ''s1'') ''send_message_error''
        [(''error'', JStr ''send_failed''),
         (''message'', JStr ''Connection terminated unexpectedly''),
         (''roomId'', JStr ''general'')]]"
  by (simp add: insertFails_def eval_send eval_chat)

text \<open>
  C2, amended. When a \<open>send_message\<close> has passed the rate limiter and the check of its
  fields, and persisting the message fails, the message is not fanned out: the only event
  emitted is a \<open>send_message_error\<close> to the sender, with error \<open>send_failed\<close> and the
  message of the failure.
\<close>

theorem send_persistence_failure:
  assumes ok: "fst (checkRateLimit s ''send_message'' now w)"
    and fields: "\<not> falsy (d_roomId d)" "\<not> falsy (d_content d)"
    and fail: "persist s d now (snd (checkRateLimit s ''send_message'' now w)) = (Inl e, w2)"
  shows "outbox (handleSendMessage s d now w) =
           outbox w @
             [(ToSocket (sock_id s), ''send_message_error'',
               [(''error'', JStr ''send_failed''), (''message'', JStr (errMessage e)),
                (''roomId'', optStr (d_roomId d))])]"
proof -
  obtain w1 where c: "checkRateLimit s ''send_message'' now w = (True, w1)"
    using ok by (cases "checkRateLimit s ''send_message'' now w") auto
  have "outbox w2 = outbox w1"
    using outbox_createMessage fail c unfolding preserves_def persist_def by (metis snd_conv)
  moreover have "outbox w1 = outbox w" using outbox_check [OF ok] c by simp
  ultimately show ?thesis
    using c fields fail
    by (simp add: handleSendMessage_def Let_def persist_def io_catch_def io_bind_def io_do_def)
qed

theorem send_persistence_failure_witness:
  "outbox (handleSendMessage alice hello 0 insertFails) =
     outbox insertFails @
       [(ToSocket ''s1'', ''send_message_error'',
         [(''error'', JStr ''send_failed''),
          (''message'', JStr ''Connection terminated unexpectedly''),
          (''roomId'', JStr ''general'')])]"
proof -
  have ok: "fst (checkRateLimit alice ''send_message'' 0 insertFails)"
    by (simp add: insertFails_def eval_send eval_chat)
  have fields: "\<not> falsy (d_roomId hello)" "\<not> falsy (d_content hello)"
    by (simp_all add: eval_send eval_chat)
  have "fst (persist alice hello 0 (snd (checkRateLimit alice ''send_message'' 0 insertFails))) =
          Inl (Error ''Connection terminated unexpectedly'')"
    by (simp add: persist_def insertFails_def eval_send eval_chat)
  then have fail: "persist alice hello 0 (snd (checkRateLimit alice ''send_message'' 0 insertFails)) =
      (Inl (Error ''Connection terminated unexpectedly''),
       snd (persist alice hello 0 (snd (checkRateLimit alice ''send_message'' 0 insertFails))))"
    by (metis prod.collapse)
  show ?thesis
    using send_persistence_failure [OF ok fields fail]
    by (simp add: alice_def hello_def noData_def optStr_def)
qed

lemma validate_nonmember:
  assumes "membershipsOf uid rid (db w) = []"
  shows "validateUserInRoom uid rid w =
           (Inl (case dbFaults w of Some m # fs \<Rightarrow> Error m | _ \<Rightarrow> Error ''User is not a member of this room''),
            w\<lparr>dbFaults := tl (dbFaults w)\<rparr>)"
  using assms
  by (auto simp: validateUserInRoom_def io_bind_def query_def select_def io_throw_def
      split: list.splits option.splits)

lemma persist_nonmember:
  assumes "membershipsOf (sock_userId s) (strOf (d_roomId d)) (db w) = []"
  shows "persist s d now w =
           (Inl (case dbFaults w of Some m # fs \<Rightarrow> Error m | _ \<Rightarrow> Error ''User is not a member of this room''),
            w\<lparr>dbFaults := tl (dbFaults w)\<rparr>)"
  by (simp add: persist_def createMessage_def io_bind_def validate_nonmember [OF assms])

text \<open>
  C8 says that every \<open>send_message\<close> of a user who is not a member of the room brings
  the sender a \<open>send_message_error\<close> that indicates the missing membership. The handler
  reaches the membership check only after the rate limiter and the check of the required
  fields, and the check itself is a query. Carol is not a member of \<open>general\<close>. When her
  limiter has no budget left, her attempt brings \<open>rate_limit_exceeded\<close> and no
  \<open>send_message_error\<close>; when she sends no content, the error is
  \<open>missing_required_fields\<close>; when the database has lost its connection, the error carries
  the message of that failure.
\<close>

theorem nonmember_error_counterexample:
  "membershipsOf (sock_userId carol) ''general'' (db chatWorld) = [] \<and>
   outbox (handleSendMessage carol hello 1000 carolThrottled) =
     [(ToSocket ''s3'', ''rate_limit_exceeded'',
       [(''error'', JStr ''rate_limit_exceeded''), (''retryAfter'', JNum 60),
        (''endpoint'', JStr ''send_message''), (''timestamp'', JNum 1000)])] \<and>
   outbox (handleSendMessage carol inGeneral 1000 chatWorld) =
     [(ToSocket ''s3'', ''send_message_error'',
       [(''error'', JStr ''missing_required_fields''),
        (''message'', JStr ''Room ID and content are required'')])] \<and>
   outbox (handleSendMessage carol hello 1000 dbDown) =
     [(ToSocket ''s3'', ''send_message_error'',
       [(''error'', JStr ''send_failed''), (''message'', JStr ''Connection terminated unexpectedly''),
        (''roomId'', JStr ''general'')])]"
  by (simp add: carolThrottled_def dbDown_def eval_send eval_chat outbox_def)

text \<open>
  C8, amended. A user who is not a member of the room never publishes into it: whatever
  else holds, \<open>send_message\<close> leaves the tables as they were and fans out no
  \<open>message_received\<close>. When the attempt passes the rate limiter, names a room and a
  content, and the database answers the membership query, the only event is a
  \<open>send_message_error\<close> to the sender whose message is
  \<open>User is not a member of this room\<close>.
\<close>

theorem nonmember_never_publishes:
  assumes nm: "membershipsOf (sock_userId s) (strOf (d_roomId d)) (db w) = []"
  shows "db (handleSendMessage s d now w) = db w \<and>
         eventsNamed ''message_received'' (handleSendMessage s d now w) =
           eventsNamed ''message_received'' w \<and>
         (fst (checkRateLimit s ''send_message'' now w) \<and> \<not> falsy (d_roomId d) \<and>
          \<not> falsy (d_content d) \<and> dbAnswers 1 w \<longrightarrow>
          outbox (handleSendMessage s d now w) =
            outbox w @
              [(ToSocket (sock_id s), ''send_message_error'',
                [(''error'', JStr ''send_failed''),
                 (''message'', JStr ''User is not a member of this room''),
                 (''roomId'', optStr (d_roomId d))])])"
proof (cases "fst (checkRateLimit s ''send_message'' now w)")
  case False
  then have "handleSendMessage s d now w = rateLimitExceeded s ''send_message'' now w"
    using check_rejected [OF False]
    by (cases "checkRateLimit s ''send_message'' now w") (simp add: handleSendMessage_def)
  then show ?thesis using False
    by (simp add: rateLimitExceeded_def eventsNamed_def outbox_def)
next
  case True
  obtain w1 where c: "checkRateLimit s ''send_message'' now w = (True, w1)"
    using True by (cases "checkRateLimit s ''send_message'' now w") auto
  have w1: "db w1 = db w" "dbFaults w1 = dbFaults w" "outbox w1 = outbox w"
    using check_frame [of s "''send_message''" now w] outbox_check [OF True] c by simp_all
  show ?thesis
  proof (cases "falsy (d_roomId d) \<or> falsy (d_content d)")
    case f: True
    then have "handleSendMessage s d now w =
        emit (ToSocket (sock_id s)) ''send_message_error''
                 [(''error'', JStr ''missing_required_fields''),
                  (''message'', JStr ''Room ID and content are required'')] w1"
      using c by (simp add: handleSendMessage_def Let_def)
    then show ?thesis using f w1
      by (auto simp: eventsNamed_def)
  next
    case f: False
    have nm1: "membershipsOf (sock_userId s) (strOf (d_roomId d)) (db w1) = []"
      using nm w1 by simp
    note p = persist_nonmember [OF nm1, of now]
    have h: "handleSendMessage s d now w =
        emit (ToSocket (sock_id s)) ''send_message_error''
          [(''error'', JStr ''send_failed''),
           (''message'', JStr (errMessage (case dbFaults w1 of Some m # fs \<Rightarrow> Error m
                                           | _ \<Rightarrow> Error ''User is not a member of this room''))),
           (''roomId'', optStr (d_roomId d))] (w1\<lparr>dbFaults := tl (dbFaults w1)\<rparr>)"
      using c f p
      by (simp add: handleSendMessage_def Let_def persist_def io_catch_def io_bind_def io_do_def)
    have o: "outbox (w1\<lparr>dbFaults := tl (dbFaults w1)\<rparr>) = outbox w"
      using w1 by (simp add: outbox_def)
    have "dbAnswers 1 w \<Longrightarrow>
            (case dbFaults w1 of Some m # fs \<Rightarrow> Error m
             | _ \<Rightarrow> Error ''User is not a member of this room'') =
            Error ''User is not a member of this room''"
      using w1 by (auto simp: dbAnswers_def split: list.splits option.splits)
    then show ?thesis using h o w1
      by (auto simp: eventsNamed_def)
  qed
qed

theorem nonmember_never_publishes_witness:
  "db (handleSendMessage carol hello 0 chatWorld) = db chatWorld \<and>
   eventsNamed ''message_received'' (handleSendMessage carol hello 0 chatWorld) =
     eventsNamed ''message_received'' chatWorld \<and>
   outbox (handleSendMessage carol hello 0 chatWorld) =
     outbox chatWorld @
       [(ToSocket ''s3'', ''send_message_error'',
         [(''error'', JStr ''send_failed''),
          (''message'', JStr ''User is not a member of this room''),
          (''roomId'', JStr ''general'')])]"
proof -
  have nm: "membershipsOf (sock_userId carol) (strOf (d_roomId hello)) (db chatWorld) = []"
    by (simp add: eval_send eval_chat)
  have pre: "fst (checkRateLimit carol ''send_message'' 0 chatWorld)"
    "\<not> falsy (d_roomId hello)" "\<not> falsy (d_content hello)" "dbAnswers 1 chatWorld"
    by (simp_all add: eval_send eval_chat dbAnswers_def)
  show ?thesis
    using nonmember_never_publishes [OF nm, of 0] pre
    by (simp add: carol_def hello_def noData_def optStr_def)
qed

section \<open>Disconnecting\<close>

lemmas eval_disc =
  handleDisconnection_def removeUserPresence_def getUserRooms_def userRoomRows_def memberCount_def
  lastMessage_def roomMessages_def removeUserFromRoom_def removeSession_def cleanupTypingForUser_def
  clearTimeout_def typingEntry_def handleStartTyping_def setTimeout_def

text \<open>
  C3 says that the teardown of a disconnecting session removes every typing entry of its
  user and broadcasts \<open>user_stopped_typing\<close> to the room of each entry it removes. The
  code does the first and not the second. Alice starts typing in \<open>general\<close> and
  disconnects one second later: the teardown removes her typing entry and cancels its
  timer, and tells the room that she left; no \<open>user_stopped_typing\<close> is broadcast, then
  or later, whereas \<open>handleStopTyping\<close> broadcasts one whenever it removes an entry.
\<close>

theorem disconnect_drops_typing_silently:
  "typingEntry (typingUsers (handleStartTyping alice inGeneral 0 chatWorld)) ''general'' ''u1'' =
     Some \<lparr>t_username = ''alice'', t_timeout = 0\<rparr> \<and>
   typingEntry (typingUsers (handleDisconnection alice 1000 (handleStartTyping alice inGeneral 0 chatWorld)))
     ''general'' ''u1'' = None \<and>
   timers (handleDisconnection alice 1000 (handleStartTyping alice inGeneral 0 chatWorld)) = [] \<and>
   effects (handleDisconnection alice 1000 (handleStartTyping alice inGeneral 0 chatWorld)) =
     [Emit (ToRoomExcept ''general'' ''s1'') ''user_typing''
        [(''userId'', JStr ''u1''), (''username'', JStr ''alice''), (''roomId'', JStr ''general''),
         (''timestamp'', JNum 0)],
      Command (Del [PresenceKey ''u1'']),
      Command (SRem (ParticipantsKey ''general'') ''u1''),
      Emit (ToRoomExcept ''general'' ''s1'') ''user_left''
        [(''user'', JObj [(''id'', JStr ''u1''), (''username'', JStr ''alice'')]),
         (''roomId'', JStr ''general''), (''timestamp'', JNum 1000)],
      Command (Del [SessionKey ''s1''])] \<and>
   eventsNamed ''user_stopped_typing''
     (runTimers 5000 (handleDisconnection alice 1000 (handleStartTyping alice inGeneral 0 chatWorld))) = []"
  by (simp add: eval_disc eval_send eval_chat runTimers_def fireTimer_def eventsNamed_def outbox_def)

lemma pr_query [simp]: "preserves (\<lambda>w. presence (redis w)) (query stmt)"
  by (rule preserves_query) simp_all

lemma pr_getUserRooms [simp]: "preserves (\<lambda>w. presence (redis w)) (getUserRooms uid)"
  unfolding getUserRooms_def by (intro pres pr_query)

lemma pr_removeUserFromRoom [simp]: "preserves (\<lambda>w. presence (redis w)) (removeUserFromRoom uid rid)"
  by (auto simp: preserves_def removeUserFromRoom_def command_def split: list.splits option.splits)

lemma pr_removeSession [simp]: "preserves (\<lambda>w. presence (redis w)) (removeSession cid)"
  by (auto simp: preserves_def removeSession_def command_def split: list.splits option.splits)

lemma redis_cleanup_fold:
  "redis (fold (\<lambda>roomId w'.
             case typingEntry (typingUsers w') roomId uid of
               None \<Rightarrow> w'
             | Some e \<Rightarrow>
                 (clearTimeout (t_timeout e) w')
                   \<lparr>typingUsers := AList.map_entry roomId (AList.delete uid) (typingUsers w')\<rparr>) rs w) = redis w"
  by (induction rs arbitrary: w) (auto simp: clearTimeout_def split: option.splits)

lemma redis_cleanup [simp]: "redis (cleanupTypingForUser uid w) = redis w"
  by (simp add: cleanupTypingForUser_def redis_cleanup_fold)

lemma removeUserPresence_ok:
  assumes "redisAnswers 1 w"
  shows "removeUserPresence uid w =
           (Inr (), w\<lparr>redis := (redis w)\<lparr>presence := (presence (redis w))(uid := None)\<rparr>,
                      redisFaults := tl (redisFaults w),
                      effects := effects w @ [Command (Del [PresenceKey uid])]\<rparr>)"
  using assms
  by (auto simp: removeUserPresence_def command_def redisAnswers_def split: list.splits option.splits)

lemma removeUserPresence_fails:
  assumes "\<not> redisAnswers 1 w"
  shows "\<exists>e. removeUserPresence uid w = (Inl e, w\<lparr>redisFaults := tl (redisFaults w)\<rparr>)"
  using assms
  by (auto simp: removeUserPresence_def command_def redisAnswers_def split: list.splits option.splits)

lemma disconnect_unfold:
  "handleDisconnection s now w =
     snd (io_catch (io_bind (removeUserPresence (sock_userId s)) (\<lambda>_. teardown s now)) (\<lambda>error. io_ret ()) w)"
  by (simp add: handleDisconnection_def teardown_def)

lemma pr_teardown: "preserves (\<lambda>w. presence (redis w)) (teardown s now)"
  unfolding teardown_def
  by (intro pres pr_getUserRooms pr_removeUserFromRoom pr_removeSession) (simp_all add: emit_def)

lemma disconnect_ok:
  assumes "redisAnswers 1 w"
  shows "handleDisconnection s now w =
     snd (io_catch (teardown s now) (\<lambda>error. io_ret ())
       (w\<lparr>redis := (redis w)\<lparr>presence := (presence (redis w))(sock_userId s := None)\<rparr>,
          redisFaults := tl (redisFaults w),
          effects := effects w @ [Command (Del [PresenceKey (sock_userId s)])]\<rparr>))"
  by (simp add: disconnect_unfold io_catch_def io_bind_def removeUserPresence_ok [OF assms])

lemma disconnect_fails:
  assumes "\<not> redisAnswers 1 w"
  shows "handleDisconnection s now w = w\<lparr>redisFaults := tl (redisFaults w)\<rparr>"
  using removeUserPresence_fails [OF assms, of "sock_userId s"]
  by (auto simp: disconnect_unfold io_catch_def io_bind_def io_ret_def)

lemma disconnect_presence:
  assumes "redisAnswers 1 w"
  shows "presence (redis (handleDisconnection s now w)) (sock_userId s) = None"
proof -
  have "preserves (\<lambda>w. presence (redis w)) (io_catch (teardown s now) (\<lambda>error. io_ret ()))"
    by (intro pres pr_teardown)
  then show ?thesis
    unfolding disconnect_ok [OF assms] preserves_def by simp
qed

lemma setUserPresence_ok:
  assumes "redisAnswers 1 w"
  shows "setUserPresence p now w =
           (Inr (), w\<lparr>redis := (redis w)\<lparr>presence := (presence (redis w))(fst p \<mapsto> (snd p, now + 30000))\<rparr>,
                      redisFaults := tl (redisFaults w),
                      effects := effects w @ [Command (SetEx (PresenceKey (fst p)))]\<rparr>)"
  using assms
  by (auto simp: setUserPresence_def command_def redisAnswers_def split: list.splits option.splits)

lemma grows_ret: "grows (io_ret x)"
  by (simp add: grows_def io_ret_def)

lemma grows_throw: "grows (io_throw m)"
  by (simp add: grows_def io_throw_def)

lemma grows_bind:
  assumes "grows m" and "\<And>x. grows (g x)"
  shows "grows (io_bind m g)"
  unfolding grows_def
proof
  fix w
  obtain r w1 where a: "m w = (r, w1)" by (cases "m w")
  obtain e1 where e1: "effects w1 = effects w @ e1"
    using assms(1) a unfolding grows_def by (metis snd_conv)
  show "\<exists>ext. effects (snd (io_bind m g w)) = effects w @ ext"
  proof (cases r)
    case (Inl e)
    then show ?thesis using a e1 by (simp add: io_bind_def)
  next
    case (Inr x)
    obtain e2 where "effects (snd (g x w1)) = effects w1 @ e2"
      using assms(2) unfolding grows_def by blast
    then show ?thesis using a e1 Inr by (simp add: io_bind_def)
  qed
qed

lemma grows_catch:
  assumes "grows m" and "\<And>e. grows (h e)"
  shows "grows (io_catch m h)"
  unfolding grows_def
proof
  fix w
  obtain r w1 where a: "m w = (r, w1)" by (cases "m w")
  obtain e1 where e1: "effects w1 = effects w @ e1"
    using assms(1) a unfolding grows_def by (metis snd_conv)
  show "\<exists>ext. effects (snd (io_catch m h w)) = effects w @ ext"
  proof (cases r)
    case (Inr x)
    then show ?thesis using a e1 by (simp add: io_catch_def)
  next
    case (Inl e)
    obtain e2 where "effects (snd (h e w1)) = effects w1 @ e2"
      using assms(2) unfolding grows_def by blast
    then show ?thesis using a e1 Inl by (simp add: io_catch_def)
  qed
qed

lemma grows_do: "(\<And>w. \<exists>ext. effects (g w) = effects w @ ext) \<Longrightarrow> grows (io_do g)"
  by (simp add: grows_def io_do_def)

lemma grows_emit: "grows (io_do (emit t e p))"
  by (rule grows_do) (simp add: emit_def)

lemma grows_query: "grows (query stmt)"
  by (auto simp: grows_def query_def split: list.splits option.splits prod.splits)

lemma grows_command: "grows (command cmd c)"
  by (auto simp: grows_def command_def split: list.splits option.splits prod.splits)

lemma grows_each: "(\<And>x. grows (g x)) \<Longrightarrow> grows (io_each g xs)"
  by (induction xs) (auto intro: grows_ret grows_bind)

lemma grows_all: "(\<And>x. grows (g x)) \<Longrightarrow> grows (io_all g xs)"
proof (induction xs)
  case Nil
  then show ?case by (simp add: grows_ret)
next
  case (Cons x xs)
  show ?case unfolding grows_def
  proof
    fix w
    obtain r w1 where a: "g x w = (r, w1)" by (cases "g x w")
    obtain e1 where e1: "effects w1 = effects w @ e1"
      using Cons.prems a unfolding grows_def by (metis snd_conv)
    obtain r2 w2 where b: "io_all g xs w1 = (r2, w2)" by (cases "io_all g xs w1")
    obtain e2 where e2: "effects w2 = effects w1 @ e2"
      using Cons.IH [OF Cons.prems] b unfolding grows_def by (metis snd_conv)
    show "\<exists>ext. effects (snd (io_all g (x # xs) w)) = effects w @ ext"
      using a b e1 e2 by (cases r; cases r2) simp_all
  qed
qed

lemma grows_prod: "(\<And>x y. grows (b x y)) \<Longrightarrow> grows (case p of (x, y) \<Rightarrow> b x y)"
  by (cases p) simp

lemma effects_cleanup_fold:
  "effects (fold (\<lambda>roomId w'.
             case typingEntry (typingUsers w') roomId uid of
               None \<Rightarrow> w'
             | Some e \<Rightarrow>
                 (clearTimeout (t_timeout e) w')
                   \<lparr>typingUsers := AList.map_entry roomId (AList.delete uid) (typingUsers w')\<rparr>) rs w) = effects w"
  by (induction rs arbitrary: w) (auto simp: clearTimeout_def split: option.splits)

lemma effects_cleanup [simp]: "effects (cleanupTypingForUser uid w) = effects w"
  by (simp add: cleanupTypingForUser_def effects_cleanup_fold)

lemma grows_teardown: "grows (teardown s now)"
  unfolding teardown_def getUserRooms_def removeUserFromRoom_def removeSession_def
  by (intro grows_bind grows_each grows_all grows_prod grows_query grows_command grows_emit grows_ret grows_do)
     simp_all

lemma query_select_quiet:
  "dbFaults w = [] \<Longrightarrow> query (select f) w = (Inr (f (db w)), w)"
  by (simp add: query_def select_def)

lemma io_all_quiet:
  "(\<And>x. f x w = (Inr (g x), w)) \<Longrightarrow> io_all f xs w = (Inr (map g xs), w)"
  by (induction xs) (simp_all add: io_ret_def)

lemma getUserRooms_quiet:
  assumes "dbFaults w = []"
  shows "\<exists>rooms. getUserRooms uid w = (Inr rooms, w) \<and>
           map (\<lambda>room. r_id (rw_room room)) rooms = map (\<lambda>(r, m). r_id r) (userRoomRows uid (db w))"
proof -
  let ?f = "\<lambda>(r, m, c).
          io_bind (query (select (lastMessage (r_id r)))) (\<lambda>lm.
            io_ret \<lparr>rw_room = r, rw_memberCount = c, rw_membership = Some m, rw_lastMessage = lm\<rparr>)"
  let ?g = "\<lambda>(r, m, c). \<lparr>rw_room = r, rw_memberCount = c, rw_membership = Some m,
                             rw_lastMessage = lastMessage (r_id r) (db w)\<rparr>"
  have "?f x w = (Inr (?g x), w)" for x
    using assms by (cases x) (simp add: io_bind_def io_ret_def query_select_quiet)
  then have "io_all ?f xs w = (Inr (map ?g xs), w)" for xs
    by (rule io_all_quiet)
  then show ?thesis
    using assms
    by (simp add: getUserRooms_def io_bind_def query_select_quiet o_def split_def)
qed

lemma leave_rooms_quiet:
  fixes rooms :: "room_with_membership list"
  assumes "redisFaults w = []"
  shows "\<exists>w'. io_each (\<lambda>room.
                io_bind (removeUserFromRoom (sock_userId s) (r_id (rw_room room))) (\<lambda>_.
                io_do (emit (ToRoomExcept (r_id (rw_room room)) (sock_id s)) ''user_left''
                         [(''user'', userJson s), (''roomId'', JStr (r_id (rw_room room))),
                          (''timestamp'', JNum now)]))) rooms w = (Inr (), w') \<and>
          redisFaults w' = [] \<and>
          effects w' = effects w @ leaveNotices s now (map (\<lambda>room. r_id (rw_room room)) rooms)"
proof -
  define body where "body = (\<lambda>room :: room_with_membership.
                io_bind (removeUserFromRoom (sock_userId s) (r_id (rw_room room))) (\<lambda>_.
                io_do (emit (ToRoomExcept (r_id (rw_room room)) (sock_id s)) ''user_left''
                         [(''user'', userJson s), (''roomId'', JStr (r_id (rw_room room))),
                          (''timestamp'', JNum now)])))"
  have step: "\<exists>w1. body room w = (Inr (), w1) \<and> redisFaults w1 = [] \<and>
                effects w1 = effects w @ leaveNotices s now [r_id (rw_room room)]"
    if "redisFaults w = []" for room w
    using that
    by (simp add: body_def io_bind_def io_do_def removeUserFromRoom_def command_def emit_def
        leaveNotices_def)
  have "\<exists>w'. io_each body rooms w = (Inr (), w') \<and> redisFaults w' = [] \<and>
          effects w' = effects w @ leaveNotices s now (map (\<lambda>room. r_id (rw_room room)) rooms)"
    using assms
  proof (induction rooms arbitrary: w)
    case Nil
    then show ?case by (simp add: io_ret_def leaveNotices_def)
  next
    case (Cons room rooms)
    obtain w1 where 1: "body room w = (Inr (), w1)" and 2: "redisFaults w1 = []"
      and 3: "effects w1 = effects w @ leaveNotices s now [r_id (rw_room room)]"
      using step [OF Cons.prems] by blast
    obtain w' where 4: "io_each body rooms w1 = (Inr (), w')" and 5: "redisFaults w' = []"
      and 6: "effects w' = effects w1 @ leaveNotices s now (map (\<lambda>room. r_id (rw_room room)) rooms)"
      using Cons.IH [OF 2] by blast
    have "io_each body (room # rooms) w = (Inr (), w')"
      using 1 4 by (simp add: io_bind_def)
    moreover have "effects w' = effects w @
        leaveNotices s now (map (\<lambda>room. r_id (rw_room room)) (room # rooms))"
      using 3 6 by (simp add: leaveNotices_def)
    ultimately show ?case using 5 by blast
  qed
  then show ?thesis by (simp add: body_def)
qed

lemma redisFaults_cleanup_fold:
  "redisFaults (fold (\<lambda>roomId w'.
             case typingEntry (typingUsers w') roomId uid of
               None \<Rightarrow> w'
             | Some e \<Rightarrow>
                 (clearTimeout (t_timeout e) w')
                   \<lparr>typingUsers := AList.map_entry roomId (AList.delete uid) (typingUsers w')\<rparr>) rs w) = redisFaults w"
  by (induction rs arbitrary: w) (auto simp: clearTimeout_def split: option.splits)

lemma redisFaults_cleanup [simp]: "redisFaults (cleanupTypingForUser uid w) = redisFaults w"
  by (simp add: cleanupTypingForUser_def redisFaults_cleanup_fold)

lemma teardown_quiet:
  assumes "dbFaults w = []" and "redisFaults w = []"
  shows "effects (snd (io_catch (teardown s now) (\<lambda>error. io_ret ()) w)) =
           effects w @ leaveNotices s now (map (\<lambda>(r, m). r_id r) (userRoomRows (sock_userId s) (db w))) @
             [Command (Del [SessionKey (sock_id s)])]"
proof -
  obtain rooms where g: "getUserRooms (sock_userId s) w = (Inr rooms, w)"
    and r: "map (\<lambda>room. r_id (rw_room room)) rooms = map (\<lambda>(r, m). r_id r) (userRoomRows (sock_userId s) (db w))"
    using getUserRooms_quiet [OF assms(1)] by blast
  obtain w' where e: "io_each (\<lambda>room.
                io_bind (removeUserFromRoom (sock_userId s) (r_id (rw_room room))) (\<lambda>_.
                io_do (emit (ToRoomExcept (r_id (rw_room room)) (sock_id s)) ''user_left''
                         [(''user'', userJson s), (''roomId'', JStr (r_id (rw_room room))),
                          (''timestamp'', JNum now)]))) rooms w = (Inr (), w')"
    and f: "redisFaults w' = []"
    and n: "effects w' = effects w @ leaveNotices s now (map (\<lambda>room. r_id (rw_room room)) rooms)"
    using leave_rooms_quiet [OF assms(2)] by blast
  show ?thesis
    using g e f n r
    by (simp add: teardown_def io_catch_def io_bind_def io_do_def removeSession_def command_def)
qed

text \<open>
  C9. When the key-value store executes the deletion of the presence record, the record
  is gone after the teardown and the effects of the teardown begin with that deletion, so
  every \<open>user_left\<close> event of the teardown comes after it. When the deletion fails, the
  handler gives up: the teardown has no effect, and no \<open>user_left\<close> is emitted at all.
  When no store fails, the effects are the deletion of the presence record, then for each
  room of the user, in the order \<open>getUserRooms\<close> returns them, the removal from the
  participant set followed by \<open>user_left\<close> to the room, then the deletion of the session.
\<close>

theorem presence_removed_before_user_left:
  "(redisAnswers 1 w \<longrightarrow>
      presence (redis (handleDisconnection s now w)) (sock_userId s) = None \<and>
      (\<exists>rest. effects (handleDisconnection s now w) =
                 effects w @ Command (Del [PresenceKey (sock_userId s)]) # rest)) \<and>
   (\<not> redisAnswers 1 w \<longrightarrow>
      redis (handleDisconnection s now w) = redis w \<and>
      effects (handleDisconnection s now w) = effects w) \<and>
   (dbFaults w = [] \<and> redisFaults w = [] \<longrightarrow>
      effects (handleDisconnection s now w) =
        effects w @ Command (Del [PresenceKey (sock_userId s)]) #
          leaveNotices s now (map (\<lambda>(r, m). r_id r) (userRoomRows (sock_userId s) (db w))) @
          [Command (Del [SessionKey (sock_id s)])])"
proof (intro conjI impI)
  assume a: "redisAnswers 1 w"
  show "presence (redis (handleDisconnection s now w)) (sock_userId s) = None"
    by (rule disconnect_presence [OF a])
  let ?w1 = "w\<lparr>redis := (redis w)\<lparr>presence := (presence (redis w))(sock_userId s := None)\<rparr>,
          redisFaults := tl (redisFaults w),
          effects := effects w @ [Command (Del [PresenceKey (sock_userId s)])]\<rparr>"
  have "grows (io_catch (teardown s now) (\<lambda>error. io_ret ()))"
    by (intro grows_catch grows_teardown grows_ret)
  then obtain rest where
    "effects (snd (io_catch (teardown s now) (\<lambda>error. io_ret ()) ?w1)) = effects ?w1 @ rest"
    unfolding grows_def by blast
  then have "effects (handleDisconnection s now w) =
       effects w @ Command (Del [PresenceKey (sock_userId s)]) # rest"
    by (simp add: disconnect_ok [OF a])
  then show "\<exists>rest. effects (handleDisconnection s now w) =
                 effects w @ Command (Del [PresenceKey (sock_userId s)]) # rest"
    by blast
next
  assume a: "\<not> redisAnswers 1 w"
  show "redis (handleDisconnection s now w) = redis w"
    and "effects (handleDisconnection s now w) = effects w"
    unfolding disconnect_fails [OF a] by simp_all
next
  assume a: "dbFaults w = [] \<and> redisFaults w = []"
  then have r: "redisAnswers 1 w" by (simp add: redisAnswers_def)
  show "effects (handleDisconnection s now w) =
        effects w @ Command (Del [PresenceKey (sock_userId s)]) #
          leaveNotices s now (map (\<lambda>(r, m). r_id r) (userRoomRows (sock_userId s) (db w))) @
          [Command (Del [SessionKey (sock_id s)])]"
    unfolding disconnect_ok [OF r]
    using a by (subst teardown_quiet) simp_all
qed

theorem presence_removed_before_user_left_witness:
  "presence (redis (handleDisconnection alice 1000 onlineWorld)) ''u1'' = None \<and>
   effects (handleDisconnection alice 1000 redisDown) = [] \<and>
   effects (handleDisconnection alice 1000 onlineWorld) =
     [Command (Del [PresenceKey ''u1'']),
      Command (SRem (ParticipantsKey ''general'') ''u1''),
      Emit (ToRoomExcept ''general'' ''s1'') ''user_left''
        [(''user'', JObj [(''id'', JStr ''u1''), (''username'', JStr ''alice'')]),
         (''roomId'', JStr ''general''), (''timestamp'', JNum 1000)],
      Command (Del [SessionKey ''s1''])]"
proof -
  have pre: "redisAnswers 1 onlineWorld" "\<not> redisAnswers 1 redisDown"
    "dbFaults onlineWorld = []" "redisFaults onlineWorld = []"
    by (simp_all add: redisAnswers_def onlineWorld_def redisDown_def eval_chat)
  have n: "leaveNotices alice 1000 (map (\<lambda>(r, m). r_id r) (userRoomRows (sock_userId alice) (db onlineWorld))) =
     [Command (SRem (ParticipantsKey ''general'') ''u1''),
      Emit (ToRoomExcept ''general'' ''s1'') ''user_left''
        [(''user'', JObj [(''id'', JStr ''u1''), (''username'', JStr ''alice'')]),
         (''roomId'', JStr ''general''), (''timestamp'', JNum 1000)]]"
    by (simp add: leaveNotices_def userJson_def userRoomRows_def membershipsOf_def onlineWorld_def
        eval_chat)
  have e: "effects onlineWorld = []" "effects redisDown = []"
    by (simp_all add: onlineWorld_def redisDown_def eval_chat)
  show ?thesis
    using presence_removed_before_user_left [of onlineWorld alice 1000, unfolded n]
      presence_removed_before_user_left [of redisDown alice 1000] pre
    by (simp add: e alice_def)
qed

section \<open>Going offline\<close>

lemma update_presence_offline:
  assumes ok: "fst (checkRateLimit s ''update_presence'' now w)"
    and st: "d_status d = Some ''offline''"
    and r: "redisAnswers 1 w"
  shows "presence (redis (handleUpdatePresence s d now w)) (sock_userId s) =
           Some (\<lparr>p_status = ''offline'', p_currentRoom = d_currentRoom d, p_lastActivity = now,
                  p_connectionId = Some (sock_id s)\<rparr>, now + 30000)"
proof -
  obtain w1 where c: "checkRateLimit s ''update_presence'' now w = (True, w1)"
    using ok by (cases "checkRateLimit s ''update_presence'' now w") auto
  have w1: "redis w1 = redis w" "redisFaults w1 = redisFaults w"
    using check_frame [of s "''update_presence''" now w] c by simp_all
  then have r1: "redisAnswers 1 w1" using r by (simp add: redisAnswers_def)
  define rest where "rest =
      io_bind (io_do (emit (ToSocket (sock_id s)) ''presence_updated''
                 [(''status'', optStr (d_status d)), (''timestamp'', JNum now)])) (\<lambda>_.
      io_bind (getUserRooms (sock_userId s)) (\<lambda>userRooms.
      io_each (\<lambda>room.
         io_do (emit (ToRoomExcept (r_id (rw_room room)) (sock_id s)) ''presence_changed''
                  [(''userId'', JStr (sock_userId s)), (''status'', optStr (d_status d)),
                   (''currentRoom'', optStr (d_currentRoom d)), (''timestamp'', JNum now)]))
         userRooms))"
  define handler where "handler = (\<lambda>error :: err.
      io_do (emit (ToSocket (sock_id s)) ''update_presence_error''
               [(''error'', JStr ''update_failed''), (''message'', JStr ''Failed to update presence'')]))"
  define p where "p = (sock_userId s,
                       \<lparr>p_status = strOf (d_status d), p_currentRoom = d_currentRoom d,
                        p_lastActivity = now, p_connectionId = Some (sock_id s)\<rparr>)"
  have h: "handleUpdatePresence s d now w =
             snd (io_catch (io_bind (setUserPresence p now) (\<lambda>_. rest)) handler w1)"
    using c st by (simp add: handleUpdatePresence_def rest_def handler_def p_def)
  have "preserves (\<lambda>w. presence (redis w)) (io_catch rest handler)"
    unfolding rest_def handler_def
    by (intro pres pr_getUserRooms) (simp_all add: emit_def)
  then have "presence (redis (snd (io_catch rest handler w2))) = presence (redis w2)" for w2
    by (simp add: preserves_def)
  then show ?thesis
    using st w1
    by (simp add: h io_catch_def io_bind_def setUserPresence_ok [OF r1] p_def strOf_def)
qed


lemmas eval_presence =
  handleUpdatePresence_def setUserPresence_def getUserRooms_def userRoomRows_def memberCount_def
  lastMessage_def roomMessages_def io_each.simps io_all.simps

text \<open>
  C4, as stated, fails. Alice is online and sends \<open>update_presence\<close> with status
  \<open>offline\<close>: afterwards her presence record exists, and its status field is \<open>offline\<close>.
\<close>

theorem offline_record_counterexample:
  "presence (redis (handleUpdatePresence alice goOffline 1000 onlineWorld)) ''u1'' =
     Some (\<lparr>p_status = ''offline'', p_currentRoom = None, p_lastActivity = 1000,
            p_connectionId = Some ''s1''\<rparr>, 31000)"
  by (simp add: onlineWorld_def goOffline_def eval_presence eval_send eval_chat)

text \<open>
  C4, amended. The disconnect cleanup deletes the user's presence record: when the
  key-value store executes the deletion, no record of the user exists after the teardown.
  A client-issued \<open>update_presence\<close> with status \<open>offline\<close> that the rate limiter allows
  does not delete the record: when the store executes the write, the user's record is the
  one just written, with status \<open>offline\<close> and the time to live of 30 seconds.
\<close>

theorem offline_transitions:
  "(redisAnswers 1 w \<longrightarrow>
      presence (redis (handleDisconnection s now w)) (sock_userId s) = None) \<and>
   (fst (checkRateLimit s ''update_presence'' now w) \<and> d_status d = Some ''offline'' \<and>
    redisAnswers 1 w \<longrightarrow>
      presence (redis (handleUpdatePresence s d now w)) (sock_userId s) =
        Some (\<lparr>p_status = ''offline'', p_currentRoom = d_currentRoom d, p_lastActivity = now,
               p_connectionId = Some (sock_id s)\<rparr>, now + 30000))"
  using disconnect_presence update_presence_offline by blast

theorem offline_transitions_witness:
  "presence (redis (handleDisconnection alice 1000 onlineWorld)) ''u1'' = None \<and>
   presence (redis (handleUpdatePresence alice goOffline 1000 onlineWorld)) ''u1'' =
     Some (\<lparr>p_status = ''offline'', p_currentRoom = None, p_lastActivity = 1000,
            p_connectionId = Some ''s1''\<rparr>, 31000)"
proof -
  have pre: "redisAnswers 1 onlineWorld" "fst (checkRateLimit alice ''update_presence'' 1000 onlineWorld)"
    "d_status goOffline = Some ''offline''"
    by (simp_all add: redisAnswers_def onlineWorld_def goOffline_def eval_send eval_chat)
  show ?thesis
    using offline_transitions [of onlineWorld alice 1000 goOffline] pre
    by (simp add: alice_def goOffline_def noData_def)
qed

section \<open>Which actions are rate limited\<close>

lemma eventsNamed_emit [simp]:
  "eventsNamed ev (emit t e p w) = eventsNamed ev w @ (if e = ev then [(t, e, p)] else [])"
  by (simp add: eventsNamed_def)

lemma ev_query [simp]: "preserves (eventsNamed ev) (query stmt)"
  by (rule preserves_query) (simp_all add: eventsNamed_def outbox_def)

lemma ev_command [simp]: "preserves (eventsNamed ev) (command cmd c)"
  by (rule preserves_command) (simp_all add: eventsNamed_def outbox_def)

lemma ev_clearMessageCache [simp]: "preserves (eventsNamed ev) (clearMessageCache rid now)"
  unfolding clearMessageCache_def by (intro pres ev_command)

lemma ev_updateMessage [simp]: "preserves (eventsNamed ev) (updateMessage mid uid upd now)"
  unfolding updateMessage_def by (intro pres ev_query ev_clearMessageCache)

lemma ev_deleteMessage [simp]: "preserves (eventsNamed ev) (deleteMessage mid uid adm now)"
  unfolding deleteMessage_def by (intro pres ev_query ev_clearMessageCache)

lemma ev_getMessageById [simp]: "preserves (eventsNamed ev) (getMessageById mid)"
  unfolding getMessageById_def by (intro pres ev_query)

lemma ev_leaveRoom [simp]: "preserves (eventsNamed ev) (leaveRoom uid rid now)"
  unfolding leaveRoom_def removeUserFromRoom_def
  by (rule preserves_transaction) (intro pres ev_query ev_command | simp add: eventsNamed_def outbox_def)+

lemma preservesD: "preserves f m \<Longrightarrow> f (snd (m w)) = f w"
  by (simp add: preserves_def)

lemma socketLeave_frame [simp]:
  "rateLimiters (socketLeave s r w) = rateLimiters w"
  "eventsNamed ev (socketLeave s r w) = eventsNamed ev w"
  by (simp_all add: socketLeave_def eventsNamed_def outbox_def)

lemma leave_unlimited:
  "rateLimiters (handleLeaveRoom s d now w) = rateLimiters w"
  "eventsNamed ''rate_limit_exceeded'' (handleLeaveRoom s d now w) = eventsNamed ''rate_limit_exceeded'' w"
  unfolding handleLeaveRoom_def
   apply (split if_split, intro conjI impI)
    apply simp
   apply (rule preservesD [where f = rateLimiters])
   apply (intro pres rl_leaveRoom; simp)
  apply (split if_split, intro conjI impI)
   apply simp
  apply (rule preservesD [where f = "eventsNamed ''rate_limit_exceeded''"])
  apply (intro pres ev_leaveRoom; simp)
  done

lemma edit_unlimited:
  "rateLimiters (handleEditMessage s d now w) = rateLimiters w"
  "eventsNamed ''rate_limit_exceeded'' (handleEditMessage s d now w) = eventsNamed ''rate_limit_exceeded'' w"
  unfolding handleEditMessage_def
   apply (split if_split, intro conjI impI)
    apply simp
   apply (rule preservesD [where f = rateLimiters])
   apply (intro pres rl_updateMessage; simp)
  apply (split if_split, intro conjI impI)
   apply simp
  apply (rule preservesD [where f = "eventsNamed ''rate_limit_exceeded''"])
  apply (intro pres ev_updateMessage; simp)
  done

lemma delete_unlimited:
  "rateLimiters (handleDeleteMessage s d now w) = rateLimiters w"
  "eventsNamed ''rate_limit_exceeded'' (handleDeleteMessage s d now w) = eventsNamed ''rate_limit_exceeded'' w"
  unfolding handleDeleteMessage_def
   apply (split if_split, intro conjI impI)
    apply simp
   apply (rule preservesD [where f = rateLimiters])
   apply (intro pres rl_deleteMessage rl_getMessageById; simp)
  apply (split if_split, intro conjI impI)
   apply simp
  apply (rule preservesD [where f = "eventsNamed ''rate_limit_exceeded''"])
  apply (intro pres ev_deleteMessage ev_getMessageById; simp)
  done

lemma rejected_send:
  "\<not> fst (checkRateLimit s ''send_message'' now w) \<Longrightarrow>
   handleSendMessage s d now w = rateLimitExceeded s ''send_message'' now w"
  using check_rejected [of s "''send_message''" now w]
  by (cases "checkRateLimit s ''send_message'' now w") (simp add: handleSendMessage_def)

lemma rejected_join:
  "\<not> fst (checkRateLimit s ''join_room'' now w) \<Longrightarrow>
   handleJoinRoom s d now w = rateLimitExceeded s ''join_room'' now w"
  using check_rejected [of s "''join_room''" now w]
  by (cases "checkRateLimit s ''join_room'' now w") (simp add: handleJoinRoom_def)

lemma rejected_presence:
  "\<not> fst (checkRateLimit s ''update_presence'' now w) \<Longrightarrow>
   handleUpdatePresence s d now w = rateLimitExceeded s ''update_presence'' now w"
  using check_rejected [of s "''update_presence''" now w]
  by (cases "checkRateLimit s ''update_presence'' now w") (simp add: handleUpdatePresence_def)

lemma rejected_typing:
  "\<not> fst (checkRateLimit s ''start_typing'' now w) \<Longrightarrow>
   handleStartTyping s d now w = rateLimitExceeded s ''start_typing'' now w"
  using check_rejected [of s "''start_typing''" now w]
  by (cases "checkRateLimit s ''start_typing'' now w") (simp add: handleStartTyping_def)

text \<open>
  The handlers of \<open>leave_room\<close>, \<open>edit_message\<close> and \<open>delete_message\<close> never change a
  limiter and never emit \<open>rate_limit_exceeded\<close>, as the lemmas above say.
\<close>

lemmas eval_leave =
  handleLeaveRoom_def leaveRoom_def transaction_def noop_def restoreTables_def newOwnerRows_def
  setRole_def setOwner_def deleteMembership_def removeUserFromRoom_def socketLeave_def

lemmas eval_delete =
  deleteMessage_def byId_def decimalBigint_def decimal_def isDigit_def isSpace_def messagesWithId_def
  softDelete_def
  clearMessageCache_def liveCache_def query_def command_def select_def io_bind_def io_throw_def
  io_ret_def

lemmas eval_edit =
  handleEditMessage_def updateMessage_def updateMessageRows_def handleDeleteMessage_def
  getMessageById_def messagesWithUser_def

text \<open>
  C5 says that the limiter of the connection is consulted before the state mutation of
  every mutating action, and names \<open>leave_room\<close>, \<open>edit_message\<close> and \<open>delete_message\<close>
  among its sources. The handlers of these three actions do not consult it, whereas those
  of \<open>send_message\<close>, \<open>join_room\<close>, \<open>update_presence\<close> and \<open>start_typing\<close> open with
  the call, and the limiter has the limit 100 for an action that its table does not
  list. Bob, a member of \<open>general\<close>, sends \<open>leave_room\<close>: his membership is deleted,
  and his connection's limiter has no entry for \<open>leave_room\<close>, although consulting the
  limiter for an action always leaves an entry for it. In the same way alice edits and
  deletes her message, and her limiter has no entry for either action.
\<close>

theorem leave_edit_delete_skip_limiter:
  "membershipsOf ''u2'' ''general'' (db chatWorld) \<noteq> [] \<and>
   membershipsOf ''u2'' ''general'' (db (handleLeaveRoom bob inGeneral 0 chatWorld)) = [] \<and>
   limiterEntry bob ''leave_room'' (handleLeaveRoom bob inGeneral 0 chatWorld) = None \<and>
   limiterEntry bob ''leave_room'' (snd (checkRateLimit bob ''leave_room'' 0 chatWorld)) \<noteq> None \<and>
   map msg_content (messages (db (handleEditMessage alice rewrite 1000 oneMessage))) = [''bye''] \<and>
   limiterEntry alice ''edit_message'' (handleEditMessage alice rewrite 1000 oneMessage) = None \<and>
   map msg_content (messages (db (handleDeleteMessage alice rewrite 1000 oneMessage))) =
     [''[Message deleted]''] \<and>
   limiterEntry alice ''delete_message'' (handleDeleteMessage alice rewrite 1000 oneMessage) = None"
  by (simp add: rewrite_def oneMessage_def eval_leave eval_edit eval_delete eval_send eval_chat
      limiterEntry_def)

text \<open>
  The handlers of \<open>send_message\<close>, \<open>join_room\<close>, \<open>update_presence\<close> and
  \<open>start_typing\<close> do consult the connection's limiter for their action before any state
  mutation: when the limiter rejects the action, the handler leaves the state as it was
  but for the \<open>rate_limit_exceeded\<close> event.
\<close>

theorem rate_limit_gate:
  "(\<not> fst (checkRateLimit s ''send_message'' now w) \<longrightarrow>
      handleSendMessage s d now w = rateLimitExceeded s ''send_message'' now w) \<and>
   (\<not> fst (checkRateLimit s ''join_room'' now w) \<longrightarrow>
      handleJoinRoom s d now w = rateLimitExceeded s ''join_room'' now w) \<and>
   (\<not> fst (checkRateLimit s ''update_presence'' now w) \<longrightarrow>
      handleUpdatePresence s d now w = rateLimitExceeded s ''update_presence'' now w) \<and>
   (\<not> fst (checkRateLimit s ''start_typing'' now w) \<longrightarrow>
      handleStartTyping s d now w = rateLimitExceeded s ''start_typing'' now w)"
  by (simp add: rejected_send rejected_join rejected_presence rejected_typing)

theorem rate_limit_gate_witness:
  "handleSendMessage alice hello 1000 throttled = rateLimitExceeded alice ''send_message'' 1000 throttled \<and>
   handleJoinRoom alice hello 1000 throttled = rateLimitExceeded alice ''join_room'' 1000 throttled \<and>
   handleUpdatePresence alice hello 1000 throttled =
     rateLimitExceeded alice ''update_presence'' 1000 throttled \<and>
   handleStartTyping alice hello 1000 throttled = rateLimitExceeded alice ''start_typing'' 1000 throttled"
proof -
  have pre: "\<not> fst (checkRateLimit alice ''send_message'' 1000 throttled)"
    "\<not> fst (checkRateLimit alice ''join_room'' 1000 throttled)"
    "\<not> fst (checkRateLimit alice ''update_presence'' 1000 throttled)"
    "\<not> fst (checkRateLimit alice ''start_typing'' 1000 throttled)"
    by (simp_all add: throttled_def eval_send eval_chat)
  show ?thesis
    using rate_limit_gate [of alice 1000 throttled hello] pre by simp
qed

section \<open>Joining a room\<close>

text \<open>
  C6. When the database answers, \<open>joinRoom\<close> for a user who has a membership of the room
  returns the stored membership row (its id, role and \<open>joined_at\<close>, whatever role is
  asked for) and leaves the tables as they were, so no second row is written and nothing
  is thrown; for a user without a membership and a room that does not exist it throws
  \<open>Room not found\<close>.
\<close>

theorem join_idempotent:
  "(membershipsOf uid rid (db w) = m # ms \<and> dbAnswers 1 w \<longrightarrow>
      joinRoom uid rid role now w = (Inr m, w\<lparr>dbFaults := tl (dbFaults w)\<rparr>)) \<and>
   (membershipsOf uid rid (db w) = [] \<and> roomsWithId rid (db w) = [] \<and> dbAnswers 2 w \<longrightarrow>
      joinRoom uid rid role now w = (Inl (Error ''Room not found''), w\<lparr>dbFaults := drop 2 (dbFaults w)\<rparr>))"
  by (auto simp: joinRoom_def io_bind_def io_ret_def io_throw_def query_def select_def dbAnswers_def
      drop_Suc numeral_2_eq_2 split: list.splits option.splits)


theorem join_idempotent_witness:
  "joinRoom ''u2'' ''general'' ''admin'' 5000 chatWorld =
     (Inr \<lparr>m_id = 2, m_user_id = ''u2'', m_room_id = ''general'', m_role = ''member'',
           m_joined_at = 0, m_last_read_at = 0, m_notifications = True\<rparr>, chatWorld) \<and>
   joinRoom ''u3'' ''nowhere'' ''member'' 5000 chatWorld = (Inl (Error ''Room not found''), chatWorld)"
proof -
  have pre: "membershipsOf ''u2'' ''general'' (db chatWorld) =
      [\<lparr>m_id = 2, m_user_id = ''u2'', m_room_id = ''general'', m_role = ''member'',
           m_joined_at = 0, m_last_read_at = 0, m_notifications = True\<rparr>]"
    "membershipsOf ''u3'' ''nowhere'' (db chatWorld) = []"
    "roomsWithId ''nowhere'' (db chatWorld) = []"
    "dbAnswers 1 chatWorld" "dbAnswers 2 chatWorld"
    by (simp_all add: membershipsOf_def roomsWithId_def dbAnswers_def eval_chat)
  have same: "chatWorld\<lparr>dbFaults := tl (dbFaults chatWorld)\<rparr> = chatWorld"
    "chatWorld\<lparr>dbFaults := drop 2 (dbFaults chatWorld)\<rparr> = chatWorld"
    by (simp_all add: chatWorld_def emptyWorld_def)
  show ?thesis
    using join_idempotent [of "''u2''" "''general''" chatWorld _ "[]" "''admin''" 5000]
      join_idempotent [of "''u3''" "''nowhere''" chatWorld _ _ "''member''" 5000] pre
    by (simp add: same)
qed

section \<open>Deleting a message\<close>

lemma insort_key_map_commute:
  "insort_key f (g x) (map g ys) = map g (insort_key (\<lambda>y. f (g y)) x ys)"
  by (induction ys) simp_all

lemma sort_key_map_commute:
  "sort_key f (map g xs) = map g (sort_key (\<lambda>y. f (g y)) xs)"
  by (induction xs) (simp_all add: insort_key_map_commute)

lemma soften_fields [simp]:
  "msg_id (soften n now m) = msg_id m"
  "msg_room_id (soften n now m) = msg_room_id m"
  "msg_user_id (soften n now m) = msg_user_id m"
  "msg_created_at (soften n now m) = msg_created_at m"
  by (simp_all add: soften_def deleted_def)

lemma roomMessages_soften:
  "roomMessages rid (d\<lparr>messages := map (soften n now) (messages d)\<rparr>) =
     map (\<lambda>(m, name). (soften n now m, name)) (roomMessages rid d)"
proof -
  have 1: "filter (\<lambda>m. msg_room_id m = rid) (map (soften n now) (messages d)) =
           map (soften n now) (filter (\<lambda>m. msg_room_id m = rid) (messages d))"
    by (simp add: filter_map o_def)
  have 2: "concat (map (\<lambda>m. map (\<lambda>u. (m, u_username u)) (filter (\<lambda>u. u_id u = msg_user_id m) us))
                    (map (soften n now) xs)) =
           map (\<lambda>(m, name). (soften n now m, name))
             (concat (map (\<lambda>m. map (\<lambda>u. (m, u_username u)) (filter (\<lambda>u. u_id u = msg_user_id m) us)) xs))"
    for us :: "user_row list" and xs
    by (induction xs) simp_all
  have 3: "(\<lambda>y. (case (case y of (m, name) \<Rightarrow> (soften n now m, name)) of (m, n) \<Rightarrow> msg_created_at m)) =
           (\<lambda>(m, n). msg_created_at m)"
    by (auto simp: fun_eq_iff)
  show ?thesis
    by (simp add: roomMessages_def 1 2 sort_key_map_commute 3 rev_map del: map_map)
qed

lemma db_command [simp]: "preserves db (command cmd c)"
  by (rule preserves_command) simp_all

lemma db_clearMessageCache: "preserves db (clearMessageCache rid now)"
  unfolding clearMessageCache_def by (intro pres db_command)

lemma softDelete_db:
  "softDelete now n d = (Inr (), d\<lparr>messages := map (soften n now) (messages d)\<rparr>)"
  by (simp add: softDelete_def soften_def deleted_def cong: map_cong)

lemma historyRows_soften:
  "historyRows rid cursor k (d\<lparr>messages := map (soften n now) (messages d)\<rparr>) =
     map (\<lambda>(m, name). (soften n now m, name)) (historyRows rid cursor k d)"
proof -
  have "filter (\<lambda>(m, u). case cursor of None \<Rightarrow> True | Some c \<Rightarrow> msg_created_at m < c)
          (map (\<lambda>(m, name). (soften n now m, name)) xs) =
        map (\<lambda>(m, name). (soften n now m, name))
          (filter (\<lambda>(m, u). case cursor of None \<Rightarrow> True | Some c \<Rightarrow> msg_created_at m < c) xs)"
    for xs :: "(message_row \<times> string) list"
    by (induction xs) (auto split: option.splits)
  then show ?thesis
    unfolding historyRows_def roomMessages_soften by (simp only: take_map)
qed

lemma deleteMessage_success:
  assumes "deleteMessage messageId uid isAdmin now w = (Inr u, w')"
  shows "\<exists>n m ms w2. bigint_in (db w) messageId = Inr n \<and> messagesWithId n (db w) = m # ms \<and>
           db w2 = (db w)\<lparr>messages := map (soften n now) (messages (db w))\<rparr> \<and>
           clearMessageCache (msg_room_id m) now w2 = (Inr u, w')"
proof -
  obtain r1 w1 where q1: "query (byId messageId (\<lambda>n. select (messagesWithId n))) w = (r1, w1)"
    by (cases "query (byId messageId (\<lambda>n. select (messagesWithId n))) w")
  obtain r2 w2 where q2: "query (byId messageId (softDelete now)) w1 = (r2, w2)"
    by (cases "query (byId messageId (softDelete now)) w1")
  from assms q1 obtain rows where r1: "r1 = Inr rows"
    by (cases r1) (auto simp: deleteMessage_def io_bind_def)
  from assms q1 r1 obtain m ms where rows: "rows = m # ms"
    by (cases rows) (auto simp: deleteMessage_def io_bind_def io_throw_def)
  from q1 r1 obtain n where n: "bigint_in (db w) messageId = Inr n"
    and rn: "rows = messagesWithId n (db w)" and d1: "db w1 = db w"
    by (auto simp: query_def byId_def select_def split: list.splits option.splits sum.splits)
  from assms q1 q2 r1 rows have c: "r2 = Inr () \<and> clearMessageCache (msg_room_id m) now w2 = (Inr u, w')"
    by (cases r2) (auto simp: deleteMessage_def io_bind_def io_throw_def split: if_splits)
  from q2 c n d1 have d2: "db w2 = (db w)\<lparr>messages := map (soften n now) (messages (db w))\<rparr>"
    by (auto simp: query_def byId_def softDelete_db split: list.splits option.splits sum.splits)
  from rows rn have "messagesWithId n (db w) = m # ms" by simp
  then show ?thesis using n d2 c by blast
qed

lemma two_answers:
  "list_all (\<lambda>f. f = None) (take 2 fs) \<Longrightarrow> fs = [] \<or> fs = [None] \<or> (\<exists>gs. fs = None # None # gs)"
  by (cases fs; cases "tl fs") (auto simp: numeral_2_eq_2)


lemma clearMessageCache_clears:
  assumes c: "clearMessageCache rid now w = (Inr u, w')" and t: "now \<le> later"
  shows "map_of (liveCache later (redis w')) (rid, cursor) = None"
proof -
  define keys where "keys = map fst (filter (\<lambda>(k, v). fst k = rid) (liveCache now (redis w)))"
  have A: "cache (redis w') =
             (if keys = [] then cache (redis w) else filter (\<lambda>(k, v). k \<notin> set keys) (cache (redis w)))"
    using c unfolding keys_def
    by (auto simp: clearMessageCache_def io_bind_def io_ret_def command_def
        split: list.splits option.splits if_splits)
  have B: "\<not> later < e" if m: "((rid, x), v, e) \<in> set (cache (redis w'))" for x v e
  proof
    assume "later < e"
    then have l: "now < e" using t by simp
    have "((rid, x), v, e) \<in> set (cache (redis w))"
      using m A by (auto split: if_splits)
    then have "((rid, x), v, e) \<in> set (filter (\<lambda>(k, v). fst k = rid) (liveCache now (redis w)))"
      using l by (simp add: liveCache_def)
    then have k: "(rid, x) \<in> set keys"
      unfolding keys_def by force
    then have "keys \<noteq> []" by auto
    then show False using m A k by auto
  qed
  have "(rid, cursor) \<notin> fst ` set (liveCache later (redis w'))"
    using B by (auto simp: liveCache_def)
  then show ?thesis by (simp add: map_of_eq_None_iff)
qed

lemma getMessageHistory_miss:
  assumes m: "membershipsOf uid rid (db w) \<noteq> []"
    and d: "dbAnswers 2 w" and r: "redisAnswers 2 w"
    and c: "map_of (liveCache now (redis w)) (rid, cursor) = None"
  shows "fst (getMessageHistory rid uid limit cursor now w) =
           Inr (History (rev (take limit (historyRows rid cursor (limit + 1) (db w))))
                  (limit < length (historyRows rid cursor (limit + 1) (db w)))
                  (if limit < length (historyRows rid cursor (limit + 1) (db w))
                   then Some (msg_created_at (fst (historyRows rid cursor (limit + 1) (db w) ! limit)))
                   else None))"
proof -
  have d': "dbFaults w = [] \<or> dbFaults w = [None] \<or> (\<exists>fs. dbFaults w = None # None # fs)"
    using d unfolding dbAnswers_def by (rule two_answers)
  have r': "redisFaults w = [] \<or> redisFaults w = [None] \<or> (\<exists>fs. redisFaults w = None # None # fs)"
    using r unfolding redisAnswers_def by (rule two_answers)
  show ?thesis
    using m c d' r'
    by (auto simp: getMessageHistory_def validateUserInRoom_def getCachedMessageHistory_def
        cacheMessageHistory_def io_bind_def io_ret_def io_throw_def query_def select_def command_def
        Let_def)
qed

text \<open>
  C10. A successful \<open>deleteMessage\<close> removes no row. The database reads the message id
  as a number \<open>n\<close> for which a row exists, and the table after the call is the table
  before it with every row of id \<open>n\<close> softened: content \<open>[Message deleted]\<close>, type
  \<open>system\<close>, \<open>edited_at\<close> the time of the call, and id, room, author and \<open>created_at\<close>
  as they were; no other table changes. The call also empties the message cache of the
  message's room, so the next history read of that room, by any member, with any cursor
  and limit, at that time or later, does not answer from the cache when the stores answer
  it: it returns the rows that the same read selected before the delete, in the same
  order, softened. The deleted message is among them whenever it was before.
\<close>

theorem delete_is_soft:
  assumes "deleteMessage messageId uid isAdmin now w = (Inr u, w')"
  shows "case bigint_in (db w) messageId of
           Inl e \<Rightarrow> False
         | Inr n \<Rightarrow>
             (case messagesWithId n (db w) of
                [] \<Rightarrow> False
              | m # ms \<Rightarrow>
                  db w' = (db w)\<lparr>messages := map (soften n now) (messages (db w))\<rparr> \<and>
                  (now \<le> later \<and> membershipsOf reader (msg_room_id m) (db w) \<noteq> [] \<and>
                   dbAnswers 2 w' \<and> redisAnswers 2 w' \<longrightarrow>
                     (let rows = map (\<lambda>(x, name). (soften n now x, name))
                                   (historyRows (msg_room_id m) cursor (limit + 1) (db w))
                      in fst (getMessageHistory (msg_room_id m) reader limit cursor later w') =
                           Inr (History (rev (take limit rows)) (limit < length rows)
                                  (if limit < length rows
                                   then Some (msg_created_at (fst (rows ! limit))) else None)))))"
proof -
  obtain n m ms w2 where n: "bigint_in (db w) messageId = Inr n"
    and rows: "messagesWithId n (db w) = m # ms"
    and d2: "db w2 = (db w)\<lparr>messages := map (soften n now) (messages (db w))\<rparr>"
    and c: "clearMessageCache (msg_room_id m) now w2 = (Inr u, w')"
    using deleteMessage_success [OF assms] by blast
  have d: "db w' = (db w)\<lparr>messages := map (soften n now) (messages (db w))\<rparr>"
    using db_clearMessageCache c d2 unfolding preserves_def by (metis snd_conv)
  have h: "fst (getMessageHistory (msg_room_id m) reader limit cursor later w') =
             Inr (History (rev (take limit rows)) (limit < length rows)
                    (if limit < length rows then Some (msg_created_at (fst (rows ! limit))) else None))"
    if t: "now \<le> later" and mem: "membershipsOf reader (msg_room_id m) (db w) \<noteq> []"
      and da: "dbAnswers 2 w'" and ra: "redisAnswers 2 w'"
      and rs: "rows = map (\<lambda>(x, name). (soften n now x, name))
                        (historyRows (msg_room_id m) cursor (limit + 1) (db w))"
    for rows
  proof -
    have mem': "membershipsOf reader (msg_room_id m) (db w') \<noteq> []"
      using mem by (simp add: d membershipsOf_def)
    have hr: "historyRows (msg_room_id m) cursor (limit + 1) (db w') = rows"
      unfolding d rs by (rule historyRows_soften)
    show ?thesis
      using getMessageHistory_miss [OF mem' da ra clearMessageCache_clears [OF c t, of cursor], of limit]
      unfolding hr .
  qed
  show ?thesis
    using n rows d h by (simp add: Let_def)
qed

theorem delete_is_soft_witness:
  "fst (getMessageHistory ''general'' ''u2'' 50 None 6000 staleCache) =
     Inr (Cached [(\<lparr>msg_id = 1, msg_room_id = ''general'', msg_user_id = ''u1'', msg_content = ''hi'',
                     msg_type = ''text'', msg_metadata = [], msg_created_at = 0, msg_edited_at = None\<rparr>,
                   ''alice'')]) \<and>
   messages (db (snd (deleteMessage '' 1'' ''u1'' False 5000 staleCache))) =
     [\<lparr>msg_id = 1, msg_room_id = ''general'', msg_user_id = ''u1'',
       msg_content = ''[Message deleted]'', msg_type = ''system'', msg_metadata = [],
       msg_created_at = 0, msg_edited_at = Some 5000\<rparr>] \<and>
   fst (getMessageHistory ''general'' ''u2'' 50 None 6000
          (snd (deleteMessage '' 1'' ''u1'' False 5000 staleCache))) =
     Inr (History [(\<lparr>msg_id = 1, msg_room_id = ''general'', msg_user_id = ''u1'',
                      msg_content = ''[Message deleted]'', msg_type = ''system'', msg_metadata = [],
                      msg_created_at = 0, msg_edited_at = Some 5000\<rparr>, ''alice'')] False None)"
proof -
  define w' where "w' = snd (deleteMessage '' 1'' ''u1'' False 5000 staleCache)"
  have "fst (deleteMessage '' 1'' ''u1'' False 5000 staleCache) = Inr ()"
    by (simp add: eval_delete staleCache_def oneMessage_def eval_chat)
  then have ok: "deleteMessage '' 1'' ''u1'' False 5000 staleCache = (Inr (), w')"
    unfolding w'_def by (metis prod.collapse)
  have p: "bigint_in (db staleCache) '' 1'' = Inr 1"
    by (simp add: staleCache_def oneMessage_def eval_chat decimalBigint_def decimal_def isDigit_def
        isSpace_def)
  have q: "messagesWithId 1 (db staleCache) =
      [\<lparr>msg_id = 1, msg_room_id = ''general'', msg_user_id = ''u1'', msg_content = ''hi'',
         msg_type = ''text'', msg_metadata = [], msg_created_at = 0, msg_edited_at = None\<rparr>]"
    by (simp add: staleCache_def oneMessage_def eval_chat messagesWithId_def)
  have f: "dbAnswers 2 w'" "redisAnswers 2 w'"
    unfolding w'_def
    by (simp_all add: eval_delete staleCache_def oneMessage_def eval_chat dbAnswers_def redisAnswers_def)
  have mem: "membershipsOf ''u2'' ''general'' (db staleCache) \<noteq> []"
    by (simp add: staleCache_def oneMessage_def eval_chat membershipsOf_def)
  have rows: "historyRows ''general'' None 51 (db staleCache) =
      [(\<lparr>msg_id = 1, msg_room_id = ''general'', msg_user_id = ''u1'', msg_content = ''hi'',
         msg_type = ''text'', msg_metadata = [], msg_created_at = 0, msg_edited_at = None\<rparr>, ''alice'')]"
    by (simp add: staleCache_def oneMessage_def eval_chat historyRows_def roomMessages_def)
  have d: "db w' = (db staleCache)\<lparr>messages := map (soften 1 5000) (messages (db staleCache))\<rparr>"
    and h: "fst (getMessageHistory ''general'' ''u2'' 50 None 6000 w') =
     Inr (History [(\<lparr>msg_id = 1, msg_room_id = ''general'', msg_user_id = ''u1'',
                      msg_content = ''[Message deleted]'', msg_type = ''system'', msg_metadata = [],
                      msg_created_at = 0, msg_edited_at = Some 5000\<rparr>, ''alice'')] False None)"
    using delete_is_soft [OF ok, of 6000 "''u2''" None 50, unfolded p q sum.case list.case] f mem
    by (simp_all add: rows soften_def deleted_def)
  have m: "messages (db w') =
     [\<lparr>msg_id = 1, msg_room_id = ''general'', msg_user_id = ''u1'',
       msg_content = ''[Message deleted]'', msg_type = ''system'', msg_metadata = [],
       msg_created_at = 0, msg_edited_at = Some 5000\<rparr>]"
    unfolding d by (simp add: staleCache_def oneMessage_def eval_chat soften_def deleted_def)
  have c: "fst (getMessageHistory ''general'' ''u2'' 50 None 6000 staleCache) =
     Inr (Cached [(\<lparr>msg_id = 1, msg_room_id = ''general'', msg_user_id = ''u1'', msg_content = ''hi'',
                     msg_type = ''text'', msg_metadata = [], msg_created_at = 0, msg_edited_at = None\<rparr>,
                   ''alice'')])"
    by (simp add: getMessageHistory_def validateUserInRoom_def getCachedMessageHistory_def
        io_bind_def io_ret_def io_throw_def query_def select_def command_def liveCache_def
        staleCache_def oneMessage_def eval_chat membershipsOf_def)
  show ?thesis
    using c m h unfolding w'_def by simp
qed

end
